theory Spec2Isabelle
  imports Main "HOL-Library.Word"
begin

unbundle bit_operations_syntax

section \<open>Common vocabulary: bytes, descriptors, observable actions\<close>

type_synonym byte = "8 word"

text \<open>
  Everything a program does to the outside world is recorded, in order, as a list of
  actions: the system calls that matter to the specification and every line printed.
  A printed line is recorded by its fixed text; of the format arguments only the ones a
  property depends on are kept (the buffer printed with \<open>%s\<close>, the version printed with
  \<open>%d\<close>). Descriptors are C \<open>int\<close>s; no arithmetic that could overflow is done on them.
\<close>

datatype action =
    Sys_socket
  | Sys_bind int
  | Sys_listen int int
  | Sys_select "int set" int
  | Sys_accept int
  | Sys_connect int
  | Sys_read int nat
  | Sys_write int "byte list"
  | Sys_close int
  | Perror string
  | Printf string
  | Printf_s string "byte list"
  | Printf_d string int
  | Printf_overrun string
  | Fprintf_stderr string

definition EXIT_FAILURE :: int where
  "EXIT_FAILURE = 1"

text \<open>The exit status a parent process sees for a value returned from \<open>main\<close>.\<close>

definition exit_status :: "int \<Rightarrow> int" where
  "exit_status r = r mod 256"

section \<open>The multiplexing server (select loop)\<close>

subsection \<open>Connection table\<close>

definition MAX_CLIENTS :: nat where
  "MAX_CLIENTS = 256"

definition PORT :: int where
  "PORT = 8080"

definition BUFF_SIZE :: nat where
  "BUFF_SIZE = 4096"

datatype state_e = STATE_NEW | STATE_CONNECTED | STATE_DISCONNECTED

record clientstate_t =
  fd :: int
  state :: state_e
  buffer :: "byte list"

text \<open>
  The global array \<open>clientStates[MAX_CLIENTS]\<close> is a list; every function below indexes
  it with \<open>i < MAX_CLIENTS\<close> only, so the array's type is the side condition
  \<open>length clientStates = MAX_CLIENTS\<close>. Static storage starts zeroed.
\<close>

definition static_clientStates :: "clientstate_t list" where
  "static_clientStates =
     replicate MAX_CLIENTS \<lparr>fd = 0, state = STATE_NEW, buffer = replicate BUFF_SIZE 0\<rparr>"

function init_clients_from :: "nat \<Rightarrow> clientstate_t list \<Rightarrow> clientstate_t list" where
  "init_clients_from i clientStates =
     (if i < MAX_CLIENTS then
        init_clients_from (i + 1)
          (clientStates[i := (clientStates ! i)
             \<lparr>fd := - 1, state := STATE_NEW, buffer := replicate BUFF_SIZE 0\<rparr>])
      else clientStates)"
  by pat_completeness auto
termination
  by (relation "measure (\<lambda>(i, _). MAX_CLIENTS - i)") auto

definition init_clients :: "clientstate_t list \<Rightarrow> clientstate_t list" where
  "init_clients clientStates = init_clients_from 0 clientStates"

function find_free_slot_from :: "nat \<Rightarrow> clientstate_t list \<Rightarrow> int" where
  "find_free_slot_from i clientStates =
     (if i < MAX_CLIENTS then
        (if fd (clientStates ! i) = - 1 then int i
         else find_free_slot_from (i + 1) clientStates)
      else - 1)"
  by pat_completeness auto
termination
  by (relation "measure (\<lambda>(i, _). MAX_CLIENTS - i)") auto

definition find_free_slot :: "clientstate_t list \<Rightarrow> int" where
  "find_free_slot clientStates = find_free_slot_from 0 clientStates"


definition fresh_slot :: clientstate_t where
  "fresh_slot = \<lparr>fd = - 1, state = STATE_NEW, buffer = replicate BUFF_SIZE 0\<rparr>"

subsection \<open>Building the readiness query set\<close>

text \<open>
  An \<open>fd_set\<close> is the set of descriptors whose bit is set. \<open>FD_ZERO\<close> discards whatever
  the variable held; \<open>FD_SET\<close> inserts. The loop over the table also maintains \<open>nfds\<close>.
  The second set, \<open>write_fds\<close>, is emptied in every iteration and never added to, so it is
  left out.
\<close>

definition FD_ZERO :: "int set \<Rightarrow> int set" where
  "FD_ZERO s = {}"

definition FD_SET :: "int \<Rightarrow> int set \<Rightarrow> int set" where
  "FD_SET d s = insert d s"

definition FD_ISSET :: "int \<Rightarrow> int set \<Rightarrow> bool" where
  "FD_ISSET d s = (d \<in> s)"

function add_active :: "nat \<Rightarrow> clientstate_t list \<Rightarrow> int set \<times> int \<Rightarrow> int set \<times> int" where
  "add_active i clientStates (rfds, nfds) =
     (if i < MAX_CLIENTS then
        (if fd (clientStates ! i) \<noteq> - 1 then
           add_active (i + 1) clientStates
             (FD_SET (fd (clientStates ! i)) rfds,
              if fd (clientStates ! i) \<ge> nfds then fd (clientStates ! i) + 1 else nfds)
         else add_active (i + 1) clientStates (rfds, nfds))
      else (rfds, nfds))"
  by pat_completeness auto
termination
  by (relation "measure (\<lambda>(i, _, _). MAX_CLIENTS - i)") auto

definition build_fd_sets :: "int \<Rightarrow> clientstate_t list \<Rightarrow> int set \<Rightarrow> int set \<times> int" where
  "build_fd_sets listen_fd clientStates old_read_fds =
     add_active 0 clientStates (FD_SET listen_fd (FD_ZERO old_read_fds), listen_fd + 1)"

subsection \<open>What the operating system answers\<close>

text \<open>
  \<open>read\<close> answers \<open>-1\<close> (error) or the bytes it delivered; no bytes is end of file. At
  most \<open>count\<close> bytes are stored, from offset 0, and the rest of the buffer is left as it
  was.
\<close>

datatype read_result = Read_error | Read_bytes "byte list"

definition sys_read :: "read_result \<Rightarrow> nat \<Rightarrow> byte list \<Rightarrow> int \<times> byte list" where
  "sys_read r count buf =
     (case r of
        Read_error \<Rightarrow> (- 1, buf)
      | Read_bytes bs \<Rightarrow>
          (let d = take count bs in (int (length d), d @ drop (length d) buf)))"

text \<open>
  \<open>printf("%s")\<close> prints up to the first NUL byte. A buffer holding no NUL makes it read
  past the array; that case is a separate action.
\<close>

definition printf_s :: "string \<Rightarrow> byte list \<Rightarrow> action" where
  "printf_s msg buf =
     (if 0 \<in> set buf then Printf_s msg (takeWhile (\<lambda>b. b \<noteq> 0) buf)
      else Printf_overrun msg)"

text \<open>
  One wake of the loop: what \<open>select\<close> reports (\<open>None\<close> is the return value \<open>-1\<close>, otherwise
  the descriptors that are ready; \<open>select\<close> only ever clears bits of the set it was given),
  what \<open>accept\<close> returns if called, and what \<open>read\<close> answers for the slot at each index.
\<close>

record iter_env =
  select_ready :: "int set option"
  accept_ret :: int
  read_ret :: "nat \<Rightarrow> read_result"

record server_state =
  clientStates :: "clientstate_t list"
  read_fds :: "int set"

subsection \<open>Dispatch\<close>

text \<open>
  Listener dispatch. The third component is \<open>True\<close> when the \<open>continue\<close> statement
  is taken, which ends the iteration before the client loop.
\<close>

definition listener_dispatch ::
  "int \<Rightarrow> int set \<Rightarrow> int \<Rightarrow> clientstate_t list \<Rightarrow> action list \<times> clientstate_t list \<times> bool" where
  "listener_dispatch listen_fd rfds conn_fd cs =
     (if FD_ISSET listen_fd rfds then
        (if conn_fd = - 1 then ([Sys_accept listen_fd, Perror ''accpet''], cs, True)
         else
           (let freeSlot = find_free_slot cs in
            if freeSlot = - 1 then
              ([Sys_accept listen_fd, Printf ''New connection'',
                Printf ''Server full, closing new connection'', Sys_close conn_fd], cs, False)
            else
              ([Sys_accept listen_fd, Printf ''New connection''],
               cs[nat freeSlot := (cs ! nat freeSlot)\<lparr>fd := conn_fd, state := STATE_CONNECTED\<rparr>],
               False)))
      else ([], cs, False))"

text \<open>The body of the client loop, for the slot \<open>currstate\<close>.\<close>

definition dispatch_slot ::
  "int set \<Rightarrow> read_result \<Rightarrow> clientstate_t \<Rightarrow> action list \<times> clientstate_t" where
  "dispatch_slot rfds r currstate =
     (if fd currstate \<noteq> - 1 \<and> FD_ISSET (fd currstate) rfds then
        (let (bytes_read, buf) = sys_read r BUFF_SIZE (buffer currstate) in
         if bytes_read \<le> 0 then
           ([Sys_read (fd currstate) BUFF_SIZE, Sys_close (fd currstate),
             Printf ''Client disconnected or error''],
            currstate\<lparr>buffer := buf, fd := - 1, state := STATE_DISCONNECTED\<rparr>)
         else
           ([Sys_read (fd currstate) BUFF_SIZE,
             printf_s ''Received data from the client: '' buf],
            currstate\<lparr>buffer := buf\<rparr>))
      else ([], currstate))"

function client_dispatch ::
  "int set \<Rightarrow> (nat \<Rightarrow> read_result) \<Rightarrow> nat \<Rightarrow> clientstate_t list \<Rightarrow> action list \<times> clientstate_t list" where
  "client_dispatch rfds rd i cs =
     (if i < MAX_CLIENTS then
        (let (tr, c) = dispatch_slot rfds (rd i) (cs ! i);
             (tr', cs') = client_dispatch rfds rd (i + 1) (cs[i := c])
         in (tr @ tr', cs'))
      else ([], cs))"
  by pat_completeness auto
termination
  by (relation "measure (\<lambda>(_, _, i, _). MAX_CLIENTS - i)") auto

subsection \<open>One iteration, the loop, and the program\<close>

definition iteration ::
  "int \<Rightarrow> iter_env \<Rightarrow> server_state \<Rightarrow> action list \<times> (int + server_state)" where
  "iteration listen_fd e s =
     (let (query, nfds) = build_fd_sets listen_fd (clientStates s) (read_fds s) in
      case select_ready e of
        None \<Rightarrow> ([Sys_select query nfds, Perror ''Select''], Inl EXIT_FAILURE)
      | Some ready \<Rightarrow>
          (let rfds = query \<inter> ready;
               (tr1, cs1, continue) = listener_dispatch listen_fd rfds (accept_ret e) (clientStates s)
           in if continue then
                (Sys_select query nfds # tr1, Inr \<lparr>clientStates = cs1, read_fds = rfds\<rparr>)
              else
                (let (tr2, cs2) = client_dispatch rfds (read_ret e) 0 cs1
                 in (Sys_select query nfds # tr1 @ tr2,
                     Inr \<lparr>clientStates = cs2, read_fds = rfds\<rparr>))))"

text \<open>
  \<open>while (1)\<close> never ends by itself: the loop is run over the finite list of wakes the
  environment has produced so far. \<open>Inl code\<close> is \<open>exit(code)\<close>.
\<close>

fun main_loop ::
  "int \<Rightarrow> iter_env list \<Rightarrow> server_state \<Rightarrow> action list \<times> (int + server_state)" where
  "main_loop listen_fd [] s = ([], Inr s)"
| "main_loop listen_fd (e # es) s =
     (case iteration listen_fd e s of
        (tr, Inl code) \<Rightarrow> (tr, Inl code)
      | (tr, Inr s') \<Rightarrow>
          (case main_loop listen_fd es s' of (tr', r) \<Rightarrow> (tr @ tr', r)))"

text \<open>
  Set-up: the return values of \<open>socket\<close>, \<open>bind\<close> and \<open>listen\<close>, and the indeterminate
  first content of the local variable \<open>read_fds\<close>.
\<close>

record setup_env =
  socket_ret :: int
  bind_ret :: int
  listen_ret :: int
  stack_read_fds :: "int set"

definition select_server_main ::
  "setup_env \<Rightarrow> iter_env list \<Rightarrow> action list \<times> (int + server_state)" where
  "select_server_main su es =
     (let cs = init_clients static_clientStates; listen_fd = socket_ret su in
      if listen_fd = - 1 then ([Sys_socket, Perror ''socket''], Inl EXIT_FAILURE)
      else if bind_ret su = - 1 then
        ([Sys_socket, Sys_bind listen_fd, Perror ''Bind''], Inl EXIT_FAILURE)
      else if listen_ret su = - 1 then
        ([Sys_socket, Sys_bind listen_fd, Sys_listen listen_fd 10, Perror ''listen''],
         Inl EXIT_FAILURE)
      else
        (case main_loop listen_fd es \<lparr>clientStates = cs, read_fds = stack_read_fds su\<rparr> of
           (tr, r) \<Rightarrow>
             ([Sys_socket, Sys_bind listen_fd, Sys_listen listen_fd 10,
               Printf ''Server listening on port 8080''] @ tr, r)))"

section \<open>The handshake pair: a server that greets and a client that checks\<close>

subsection \<open>The frame in memory\<close>

text \<open>
  Both programs lay a \<open>proto_hdr_t\<close> over a zeroed \<open>char buf[4096]\<close> and place the payload
  at \<open>&hdr[1]\<close>. With a four-byte enum aligned to four bytes and a two-byte \<open>unsigned short\<close>
  (the layout of the usual 32- and 64-bit ABIs) the members sit at offsets 0 and 4, two
  bytes of padding follow, and \<open>sizeof(proto_hdr_t)\<close> is 8.
\<close>

definition sizeof_proto_hdr_t :: nat where
  "sizeof_proto_hdr_t = 8"

definition sizeof_int :: nat where
  "sizeof_int = 4"

definition offsetof_type :: nat where
  "offsetof_type = 0"

definition offsetof_len :: nat where
  "offsetof_len = 4"

definition PROTO_HELLO :: "32 word" where
  "PROTO_HELLO = 0"

definition store :: "nat \<Rightarrow> byte list \<Rightarrow> byte list \<Rightarrow> byte list" where
  "store off bs buf = take off buf @ bs @ drop (off + length bs) buf"

definition load :: "nat \<Rightarrow> nat \<Rightarrow> byte list \<Rightarrow> byte list" where
  "load off n buf = take n (drop off buf)"

text \<open>
  \<open>htonl x\<close> stored into an object leaves the bytes of \<open>x\<close> in memory most significant
  first, whatever the host's byte order; \<open>ntohl\<close> of an object reads its bytes the same
  way. Likewise for the 16-bit pair.
\<close>

definition htonl_bytes :: "32 word \<Rightarrow> byte list" where
  "htonl_bytes x = [ucast (drop_bit 24 x), ucast (drop_bit 16 x), ucast (drop_bit 8 x), ucast x]"

definition htons_bytes :: "16 word \<Rightarrow> byte list" where
  "htons_bytes x = [ucast (drop_bit 8 x), ucast x]"

definition ntohl_bytes :: "byte list \<Rightarrow> 32 word" where
  "ntohl_bytes bs = foldl (\<lambda>acc b. push_bit 8 acc OR ucast b) 0 bs"

definition ntohs_bytes :: "byte list \<Rightarrow> 16 word" where
  "ntohs_bytes bs = foldl (\<lambda>acc b. push_bit 8 acc OR ucast b) 0 bs"

subsection \<open>The greeting server\<close>

definition server_handle_client :: "int \<Rightarrow> action list" where
  "server_handle_client cfd =
     (let buf0 = replicate 4096 0;
          buf1 = store offsetof_type (htonl_bytes PROTO_HELLO) buf0;
          real_len = sizeof_int;
          buf2 = store offsetof_len (htons_bytes (of_nat real_len)) buf1;
          buf3 = store sizeof_proto_hdr_t (htonl_bytes 1) buf2
      in [Sys_write cfd (take (sizeof_proto_hdr_t + real_len) buf3)])"

text \<open>
  The accept loop, run over the return values \<open>accept\<close> has produced so far. \<open>Some r\<close>
  is \<open>main\<close> returning \<open>r\<close>; \<open>None\<close> is the loop still running.
\<close>

fun server_loop :: "int \<Rightarrow> int list \<Rightarrow> action list \<times> int option" where
  "server_loop server_socket [] = ([], None)"
| "server_loop server_socket (client_fd # rest) =
     (if client_fd = - 1 then
        ([Sys_accept server_socket, Printf ''clientSize'', Perror ''accept'',
          Sys_close server_socket], Some (- 1))
      else
        (case server_loop server_socket rest of
           (tr, r) \<Rightarrow>
             ([Sys_accept server_socket, Printf ''clientSize''] @
              server_handle_client client_fd @ [Sys_close client_fd] @ tr, r)))"

record server_env =
  srv_socket_ret :: int
  srv_bind_ret :: int
  srv_listen_ret :: int

text \<open>The body of the test on \<open>listen\<close>'s return value is empty in the source.\<close>

definition server_main :: "server_env \<Rightarrow> int list \<Rightarrow> action list \<times> int option" where
  "server_main e accepts =
     (let server_socket = srv_socket_ret e in
      if server_socket = - 1 then ([Sys_socket, Perror ''socket''], Some (- 1))
      else if srv_bind_ret e = - 1 then
        ([Sys_socket, Sys_bind server_socket, Perror ''bind'', Sys_close server_socket],
         Some (- 1))
      else
        (let BACKLOG = 0;
             after_listen = (if srv_listen_ret e = - 1 then [] else [])
         in case server_loop server_socket accepts of
              (tr, r) \<Rightarrow>
                ([Sys_socket, Sys_bind server_socket, Sys_listen server_socket BACKLOG] @
                 after_listen @ tr, r)))"

subsection \<open>The checking client\<close>

text \<open>
  The client reads at most \<open>sizeof(proto_hdr_t) + sizeof(int)\<close> bytes into a zeroed buffer,
  ignores \<open>read\<close>'s return value, converts the three fields in place and tests two of
  them. It never writes to the descriptor.
\<close>

definition client_handle_client :: "int \<Rightarrow> read_result \<Rightarrow> action list" where
  "client_handle_client sockfd r =
     (let buf0 = replicate 4096 0;
          count = sizeof_proto_hdr_t + sizeof_int;
          buf = snd (sys_read r count buf0);
          hdr_type = ntohl_bytes (load offsetof_type 4 buf);
          hdr_len = ntohs_bytes (load offsetof_len 2 buf);
          data = ntohl_bytes (load sizeof_proto_hdr_t sizeof_int buf)
      in if hdr_type \<noteq> PROTO_HELLO then
           [Sys_read sockfd count, Printf ''Protocol mismatch'']
         else if data \<noteq> 1 then
           [Sys_read sockfd count, Printf_d ''Version: '' (sint data),
            Printf ''Protocal version mismatch'']
         else [Sys_read sockfd count, Printf ''Server connected to protocol v1''])"

record client_env =
  argc :: int
  cl_socket_ret :: int
  cl_connect_ret :: int
  cl_read_ret :: read_result

text \<open>Control that reaches the end of \<open>main\<close> returns 0.\<close>

definition client_main :: "client_env \<Rightarrow> action list \<times> int" where
  "client_main e =
     (if argc e < 2 then ([Fprintf_stderr ''Usage: <IP_ADDRESS>''], - 1)
      else
        (let sockfd = cl_socket_ret e in
         if sockfd = - 1 then ([Sys_socket, Perror ''socket''], - 1)
         else if cl_connect_ret e = - 1 then
           ([Sys_socket, Sys_connect sockfd, Perror ''connect'', Sys_close sockfd], 0)
         else
           ([Sys_socket, Sys_connect sockfd] @ client_handle_client sockfd (cl_read_ret e) @
            [Sys_close sockfd], 0)))"

section \<open>Reading traces\<close>

text \<open>Which actions are calls of \<open>accept\<close>, of \<open>read\<close> and of \<open>write\<close>.\<close>

fun is_accept :: "action \<Rightarrow> bool" where
  "is_accept (Sys_accept _) = True"
| "is_accept _ = False"

fun is_read :: "action \<Rightarrow> bool" where
  "is_read (Sys_read _ _) = True"
| "is_read _ = False"

fun is_write :: "action \<Rightarrow> bool" where
  "is_write (Sys_write _ _) = True"
| "is_write _ = False"

section \<open>Facts about the loops of the multiplexing server\<close>

text \<open>
  Each \<open>for\<close> loop over the table is characterised once, by computation induction along
  its own recursion; the properties of the specification are then read off.
\<close>

declare init_clients_from.simps [simp del] find_free_slot_from.simps [simp del]
  add_active.simps [simp del] client_dispatch.simps [simp del]

lemma init_clients_from_eq:
  "i \<le> MAX_CLIENTS \<Longrightarrow> length cs = MAX_CLIENTS \<Longrightarrow>
   init_clients_from i cs = take i cs @ replicate (MAX_CLIENTS - i) fresh_slot"
proof (induction i cs rule: init_clients_from.induct)
  case (1 i cs)
  show ?case
  proof (cases "i < MAX_CLIENTS")
    case True
    let ?cs = "cs[i := (cs ! i)\<lparr>fd := - 1, state := STATE_NEW, buffer := replicate BUFF_SIZE 0\<rparr>]"
    have "init_clients_from i cs = init_clients_from (i + 1) ?cs"
      using True by (subst init_clients_from.simps) simp
    also have "\<dots> = take (i + 1) ?cs @ replicate (MAX_CLIENTS - (i + 1)) fresh_slot"
      using "1.IH"[OF True] True "1.prems" by simp
    also have "take (i + 1) ?cs = take i cs @ [fresh_slot]"
      using True "1.prems" by (simp add: take_Suc_conv_app_nth fresh_slot_def)
    also have "(take i cs @ [fresh_slot]) @ replicate (MAX_CLIENTS - (i + 1)) fresh_slot
        = take i cs @ replicate (MAX_CLIENTS - i) fresh_slot"
      using True by (simp add: replicate_Suc[symmetric] Suc_diff_Suc del: replicate_Suc)
    finally show ?thesis .
  next
    case False
    then show ?thesis using "1.prems" by (subst init_clients_from.simps) simp
  qed
qed

lemma init_clients_eq:
  "length cs = MAX_CLIENTS \<Longrightarrow> init_clients cs = replicate MAX_CLIENTS fresh_slot"
  by (simp add: init_clients_def init_clients_from_eq)

lemma find_free_slot_from_none:
  "(find_free_slot_from i cs = - 1) = (\<forall>j. i \<le> j \<and> j < MAX_CLIENTS \<longrightarrow> fd (cs ! j) \<noteq> - 1)"
proof (induction i cs rule: find_free_slot_from.induct)
  case (1 i cs)
  show ?case
  proof (cases "i < MAX_CLIENTS")
    case True
    show ?thesis
    proof (cases "fd (cs ! i) = - 1")
      case True
      with \<open>i < MAX_CLIENTS\<close> show ?thesis
        by (subst find_free_slot_from.simps) auto
    next
      case False
      have "(find_free_slot_from i cs = - 1) = (find_free_slot_from (i + 1) cs = - 1)"
        using True False by (subst find_free_slot_from.simps) simp
      also have "\<dots> = (\<forall>j. i + 1 \<le> j \<and> j < MAX_CLIENTS \<longrightarrow> fd (cs ! j) \<noteq> - 1)"
        using "1.IH"[OF True False] .
      also have "\<dots> = (\<forall>j. i \<le> j \<and> j < MAX_CLIENTS \<longrightarrow> fd (cs ! j) \<noteq> - 1)"
        using False by (metis Suc_eq_plus1 Suc_leI le_neq_implies_less Suc_leD)
      finally show ?thesis .
    qed
  next
    case False
    then show ?thesis by (subst find_free_slot_from.simps) auto
  qed
qed

lemma find_free_slot_from_some:
  "find_free_slot_from i cs \<noteq> - 1 \<Longrightarrow>
   (\<exists>k. find_free_slot_from i cs = int k \<and> i \<le> k \<and> k < MAX_CLIENTS \<and> fd (cs ! k) = - 1 \<and>
        (\<forall>j. i \<le> j \<and> j < k \<longrightarrow> fd (cs ! j) \<noteq> - 1))"
proof (induction i cs rule: find_free_slot_from.induct)
  case (1 i cs)
  show ?case
  proof (cases "i < MAX_CLIENTS")
    case True
    show ?thesis
    proof (cases "fd (cs ! i) = - 1")
      case True
      with \<open>i < MAX_CLIENTS\<close> show ?thesis
        by (subst find_free_slot_from.simps) auto
    next
      case False
      have eq: "find_free_slot_from i cs = find_free_slot_from (i + 1) cs"
        using True False by (subst find_free_slot_from.simps) simp
      with "1.prems" have "find_free_slot_from (i + 1) cs \<noteq> - 1" by simp
      from "1.IH"[OF True False this] obtain k where
        k: "find_free_slot_from (i + 1) cs = int k" "i + 1 \<le> k" "k < MAX_CLIENTS"
           "fd (cs ! k) = - 1" "\<forall>j. i + 1 \<le> j \<and> j < k \<longrightarrow> fd (cs ! j) \<noteq> - 1"
        by blast
      have "\<forall>j. i \<le> j \<and> j < k \<longrightarrow> fd (cs ! j) \<noteq> - 1"
        using k(5) False by (metis Suc_eq_plus1 Suc_leI le_neq_implies_less)
      with k eq show ?thesis by auto
    qed
  next
    case False
    with "1.prems" show ?thesis by (subst (asm) find_free_slot_from.simps) simp
  qed
qed

lemma add_active_fst:
  "fst (add_active i cs (S, n)) = S \<union> {fd (cs ! j) | j. i \<le> j \<and> j < MAX_CLIENTS \<and> fd (cs ! j) \<noteq> - 1}"
proof (induction i cs "(S, n)" arbitrary: S n rule: add_active.induct)
  case (1 i cs S n)
  show ?case
  proof (cases "i < MAX_CLIENTS")
    case True
    have split: "{fd (cs ! j) | j. i \<le> j \<and> j < MAX_CLIENTS \<and> fd (cs ! j) \<noteq> - 1}
        = (if fd (cs ! i) \<noteq> - 1 then {fd (cs ! i)} else {}) \<union>
          {fd (cs ! j) | j. i + 1 \<le> j \<and> j < MAX_CLIENTS \<and> fd (cs ! j) \<noteq> - 1}"
      using True by (auto simp: Suc_le_eq le_less)
    show ?thesis
    proof (cases "fd (cs ! i) \<noteq> - 1")
      case t: True
      show ?thesis
        using True t "1.hyps"(1)[OF True t]
        by (subst add_active.simps) (simp add: split FD_SET_def)
    next
      case f: False
      show ?thesis
        using True f "1.hyps"(2)[OF True f]
        by (subst add_active.simps) (simp add: split)
    qed
  next
    case False
    then show ?thesis by (subst add_active.simps) auto
  qed
qed

lemma client_dispatch_eq:
  "i \<le> MAX_CLIENTS \<Longrightarrow> length cs = MAX_CLIENTS \<Longrightarrow>
   client_dispatch rfds rd i cs =
     (concat (map (\<lambda>j. fst (dispatch_slot rfds (rd j) (cs ! j))) [i..<MAX_CLIENTS]),
      take i cs @ map (\<lambda>j. snd (dispatch_slot rfds (rd j) (cs ! j))) [i..<MAX_CLIENTS])"
proof (induction rfds rd i cs rule: client_dispatch.induct)
  case (1 rfds rd i cs)
  show ?case
  proof (cases "i < MAX_CLIENTS")
    case True
    obtain tr c where d: "dispatch_slot rfds (rd i) (cs ! i) = (tr, c)"
      by (cases "dispatch_slot rfds (rd i) (cs ! i)")
    let ?cs = "cs[i := c]"
    have IH: "client_dispatch rfds rd (Suc i) ?cs =
       (concat (map (\<lambda>j. fst (dispatch_slot rfds (rd j) (?cs ! j))) [Suc i..<MAX_CLIENTS]),
        take (Suc i) ?cs @ map (\<lambda>j. snd (dispatch_slot rfds (rd j) (?cs ! j))) [Suc i..<MAX_CLIENTS])"
      using "1.IH"[OF True d[symmetric] refl] True "1.prems" by simp
    have same: "\<And>j. j \<in> set [Suc i..<MAX_CLIENTS] \<Longrightarrow> ?cs ! j = cs ! j"
      by simp
    have m1: "map (\<lambda>j. fst (dispatch_slot rfds (rd j) (?cs ! j))) [Suc i..<MAX_CLIENTS]
            = map (\<lambda>j. fst (dispatch_slot rfds (rd j) (cs ! j))) [Suc i..<MAX_CLIENTS]"
      by (rule map_cong[OF refl]) (simp only: same)
    have m2: "map (\<lambda>j. snd (dispatch_slot rfds (rd j) (?cs ! j))) [Suc i..<MAX_CLIENTS]
            = map (\<lambda>j. snd (dispatch_slot rfds (rd j) (cs ! j))) [Suc i..<MAX_CLIENTS]"
      by (rule map_cong[OF refl]) (simp only: same)
    have tk: "take (Suc i) ?cs = take i cs @ [c]"
      using True "1.prems" by (simp add: take_Suc_conv_app_nth)
    have up: "[i..<MAX_CLIENTS] = i # [Suc i..<MAX_CLIENTS]"
      using True by (simp add: upt_conv_Cons)
    show ?thesis
      using True
      by (subst client_dispatch.simps) (simp add: d IH m1 m2 tk up)
  next
    case False
    then show ?thesis using "1.prems" by (subst client_dispatch.simps) simp
  qed
qed

lemma build_fd_sets_fst:
  "fst (build_fd_sets listen_fd cs old) =
     insert listen_fd {fd (cs ! j) | j. j < MAX_CLIENTS \<and> fd (cs ! j) \<noteq> - 1}"
  by (simp add: build_fd_sets_def add_active_fst FD_SET_def FD_ZERO_def)

lemma iteration_select:
  "\<exists>nfds tr. fst (iteration listen_fd e s) =
      Sys_select (fst (build_fd_sets listen_fd (clientStates s) (read_fds s))) nfds # tr"
  by (auto simp: iteration_def Let_def split: prod.splits option.splits)


lemma listener_dispatch_length:
  "length (fst (snd (listener_dispatch listen_fd rfds conn_fd cs))) = length cs"
  by (simp add: listener_dispatch_def Let_def)




lemma static_length: "length static_clientStates = MAX_CLIENTS"
  by (simp add: static_clientStates_def)



lemma add_active_snd:
  "finite S \<Longrightarrow> S \<noteq> {} \<Longrightarrow> n = Max S + 1 \<Longrightarrow>
   snd (add_active i cs (S, n)) = Max (fst (add_active i cs (S, n))) + 1"
proof (induction i cs "(S, n)" arbitrary: S n rule: add_active.induct)
  case (1 i cs S n)
  show ?case
  proof (cases "i < MAX_CLIENTS")
    case True
    show ?thesis
    proof (cases "fd (cs ! i) \<noteq> - 1")
      case t: True
      let ?d = "fd (cs ! i)"
      let ?n = "if ?d \<ge> n then ?d + 1 else n"
      have m: "?n = Max (FD_SET ?d S) + 1"
        using "1.prems" by (auto simp: FD_SET_def max_def)
      have step: "add_active i cs (S, n) = add_active (i + 1) cs (FD_SET ?d S, ?n)"
        using True t by (subst add_active.simps) simp
      have "snd (add_active (i + 1) cs (FD_SET ?d S, ?n)) =
            Max (fst (add_active (i + 1) cs (FD_SET ?d S, ?n))) + 1"
        using "1.prems" by (intro "1.hyps"(1)[OF True t] m) (simp_all add: FD_SET_def)
      then show ?thesis by (simp only: step)
    next
      case f: False
      have step: "add_active i cs (S, n) = add_active (i + 1) cs (S, n)"
        using True f by (subst add_active.simps) simp
      show ?thesis
        using "1.hyps"(2)[OF True f "1.prems"] by (simp only: step)
    qed
  next
    case False
    then have "add_active i cs (S, n) = (S, n)" by (subst add_active.simps) simp
    then show ?thesis using "1.prems" by simp
  qed
qed

lemma build_fd_sets_snd:
  "snd (build_fd_sets listen_fd cs old) = Max (fst (build_fd_sets listen_fd cs old)) + 1"
  unfolding build_fd_sets_def
  by (rule add_active_snd) (simp_all add: FD_SET_def FD_ZERO_def)

lemma active_set_conv:
  "length cs = MAX_CLIENTS \<Longrightarrow>
   {fd (cs ! j) | j. j < MAX_CLIENTS \<and> fd (cs ! j) \<noteq> - 1} =
     set (map fd (filter (\<lambda>c. fd c \<noteq> - 1) cs))"
  by (auto simp: in_set_conv_nth)

lemma build_fd_sets_eval:
  "length cs = MAX_CLIENTS \<Longrightarrow>
   build_fd_sets listen_fd cs old =
     (insert listen_fd (set (map fd (filter (\<lambda>c. fd c \<noteq> - 1) cs))),
      Max (insert listen_fd (set (map fd (filter (\<lambda>c. fd c \<noteq> - 1) cs)))) + 1)"
  using build_fd_sets_fst[of listen_fd cs old] build_fd_sets_snd[of listen_fd cs old]
  by (simp add: active_set_conv prod_eq_iff)

lemma find_free_slot_first:
  assumes "k < MAX_CLIENTS" "fd (cs ! k) = - 1" "\<forall>j<k. fd (cs ! j) \<noteq> - 1"
  shows "find_free_slot cs = int k"
proof -
  have ne: "find_free_slot_from 0 cs \<noteq> - 1"
    using assms(1,2) by (auto simp: find_free_slot_from_none)
  from find_free_slot_from_some[OF ne] obtain k' where
    k': "find_free_slot_from 0 cs = int k'" "k' < MAX_CLIENTS" "fd (cs ! k') = - 1"
        "\<forall>j. 0 \<le> j \<and> j < k' \<longrightarrow> fd (cs ! j) \<noteq> - 1"
    by blast
  have "k' = k"
    using assms k' by (meson le0 linorder_neqE_nat)
  with k'(1) show ?thesis by (simp add: find_free_slot_def)
qed

lemma dispatch_slot_idle:
  "fd c = - 1 \<or> \<not> FD_ISSET (fd c) rfds \<Longrightarrow> dispatch_slot rfds r c = ([], c)"
  by (auto simp: dispatch_slot_def)

lemma client_dispatch_nth:
  "length cs = MAX_CLIENTS \<Longrightarrow> j < MAX_CLIENTS \<Longrightarrow>
   snd (client_dispatch rfds rd 0 cs) ! j = snd (dispatch_slot rfds (rd j) (cs ! j))"
  by (simp add: client_dispatch_eq)

lemma concat_map_single:
  assumes "i < n" "\<And>j. j < n \<Longrightarrow> j \<noteq> i \<Longrightarrow> f j = []"
  shows "concat (map f [0..<n]) = f i"
proof -
  have split: "[0..<n] = [0..<i] @ i # [Suc i..<n]"
    using assms(1) by (metis less_imp_add_positive upt_add_eq_append upt_conv_Cons zero_le)
  have a: "concat (map f [0..<i]) = []"
    using assms by auto
  have b: "concat (map f [Suc i..<n]) = []"
    using assms by auto
  show ?thesis by (simp add: split a b)
qed

lemma client_dispatch_single:
  assumes len: "length cs = MAX_CLIENTS" and i: "i < MAX_CLIENTS"
    and idle: "\<forall>j<MAX_CLIENTS. j \<noteq> i \<longrightarrow> fd (cs ! j) = - 1 \<or> \<not> FD_ISSET (fd (cs ! j)) rfds"
  shows "client_dispatch rfds rd 0 cs =
     (fst (dispatch_slot rfds (rd i) (cs ! i)), cs[i := snd (dispatch_slot rfds (rd i) (cs ! i))])"
proof -
  have tr: "concat (map (\<lambda>j. fst (dispatch_slot rfds (rd j) (cs ! j))) [0..<MAX_CLIENTS]) =
      fst (dispatch_slot rfds (rd i) (cs ! i))"
    using idle by (intro concat_map_single[OF i]) (simp add: dispatch_slot_idle)
  have tb: "map (\<lambda>j. snd (dispatch_slot rfds (rd j) (cs ! j))) [0..<MAX_CLIENTS] =
      cs[i := snd (dispatch_slot rfds (rd i) (cs ! i))]"
  proof (intro nth_equalityI)
    show "length (map (\<lambda>j. snd (dispatch_slot rfds (rd j) (cs ! j))) [0..<MAX_CLIENTS]) =
        length (cs[i := snd (dispatch_slot rfds (rd i) (cs ! i))])"
      using len by simp
  next
    fix j assume "j < length (map (\<lambda>j. snd (dispatch_slot rfds (rd j) (cs ! j))) [0..<MAX_CLIENTS])"
    then have j: "j < MAX_CLIENTS" by simp
    show "map (\<lambda>j. snd (dispatch_slot rfds (rd j) (cs ! j))) [0..<MAX_CLIENTS] ! j =
        cs[i := snd (dispatch_slot rfds (rd i) (cs ! i))] ! j"
    proof (cases "j = i")
      case True
      then show ?thesis using j len by simp
    next
      case False
      then have "dispatch_slot rfds (rd j) (cs ! j) = ([], cs ! j)"
        using idle j by (simp add: dispatch_slot_idle)
      then show ?thesis using j len False by simp
    qed
  qed
  show ?thesis using len by (simp add: client_dispatch_eq tr tb)
qed

lemma client_dispatch_idle:
  assumes len: "length cs = MAX_CLIENTS"
    and idle: "\<forall>j<MAX_CLIENTS. fd (cs ! j) = - 1 \<or> \<not> FD_ISSET (fd (cs ! j)) rfds"
  shows "client_dispatch rfds rd 0 cs = ([], cs)"
proof -
  have tr: "concat (map (\<lambda>j. fst (dispatch_slot rfds (rd j) (cs ! j))) [0..<MAX_CLIENTS]) = []"
    using idle by (simp add: dispatch_slot_idle)
  have tb: "map (\<lambda>j. snd (dispatch_slot rfds (rd j) (cs ! j))) [0..<MAX_CLIENTS] = cs"
    using len idle by (intro nth_equalityI) (auto simp: dispatch_slot_idle)
  show ?thesis using len by (simp add: client_dispatch_eq tr tb)
qed

lemma table_unfold: "replicate MAX_CLIENTS x = x # replicate 255 x"
proof -
  have e: "MAX_CLIENTS = Suc 255" by (simp add: MAX_CLIENTS_def)
  show ?thesis by (subst e) (rule replicate_Suc)
qed

lemma table_length: "length (c # replicate 255 x) = MAX_CLIENTS"
  by (simp add: MAX_CLIENTS_def)

lemma iteration_accept_first:
  assumes "fd c = - 1" "a \<noteq> - 1" "a \<noteq> l"
  shows "iteration l \<lparr>select_ready = Some {l}, accept_ret = a, read_ret = rd\<rparr>
           \<lparr>clientStates = c # replicate 255 fresh_slot, read_fds = old\<rparr> =
         ([Sys_select {l} (l + 1), Sys_accept l, Printf ''New connection''],
          Inr \<lparr>clientStates = c\<lparr>fd := a, state := STATE_CONNECTED\<rparr> # replicate 255 fresh_slot,
               read_fds = {l}\<rparr>)"
proof -
  let ?cs = "c # replicate 255 fresh_slot"
  let ?cs1 = "c\<lparr>fd := a, state := STATE_CONNECTED\<rparr> # replicate 255 fresh_slot"
  have b: "build_fd_sets l ?cs old = ({l}, l + 1)"
    using assms(1) by (simp add: build_fd_sets_eval MAX_CLIENTS_def fresh_slot_def)
  have f: "find_free_slot ?cs = 0"
    using find_free_slot_first[of 0 ?cs] assms(1) by (simp add: MAX_CLIENTS_def)
  have ld: "listener_dispatch l {l} a ?cs =
      ([Sys_accept l, Printf ''New connection''], ?cs1, False)"
    using assms(2) by (simp add: listener_dispatch_def f FD_ISSET_def)
  have cd: "client_dispatch {l} rd 0 ?cs1 = ([], ?cs1)"
    using assms(3)
    by (intro client_dispatch_idle table_length)
       (auto simp: FD_ISSET_def nth_Cons' fresh_slot_def MAX_CLIENTS_def)
  show ?thesis
    by (simp add: iteration_def Let_def b ld cd)
qed

lemma iteration_first_ready:
  assumes "fd c \<noteq> - 1" "fd c \<noteq> l"
  shows "iteration l \<lparr>select_ready = Some {fd c}, accept_ret = a, read_ret = rd\<rparr>
           \<lparr>clientStates = c # replicate 255 fresh_slot, read_fds = old\<rparr> =
         (Sys_select {l, fd c} (max l (fd c) + 1) # fst (dispatch_slot {fd c} (rd 0) c),
          Inr \<lparr>clientStates = snd (dispatch_slot {fd c} (rd 0) c) # replicate 255 fresh_slot,
               read_fds = {fd c}\<rparr>)"
proof -
  let ?cs = "c # replicate 255 fresh_slot"
  have b: "build_fd_sets l ?cs old = ({l, fd c}, max l (fd c) + 1)"
    using assms(1) by (simp add: build_fd_sets_eval MAX_CLIENTS_def fresh_slot_def)
  have i: "{l, fd c} \<inter> {fd c} = {fd c}" by auto
  have ld: "listener_dispatch l {fd c} a ?cs = ([], ?cs, False)"
    using assms(2) by (simp add: listener_dispatch_def FD_ISSET_def)
  have cd: "client_dispatch {fd c} rd 0 ?cs =
      (fst (dispatch_slot {fd c} (rd 0) (?cs ! 0)), ?cs[0 := snd (dispatch_slot {fd c} (rd 0) (?cs ! 0))])"
    by (intro client_dispatch_single table_length)
       (auto simp: FD_ISSET_def nth_Cons' fresh_slot_def MAX_CLIENTS_def)
  show ?thesis
    by (simp add: iteration_def Let_def b i ld cd)
qed

lemma fresh_slot_fd: "fd fresh_slot = - 1"
  by (simp add: fresh_slot_def)

lemma fresh_slot_connect:
  "fresh_slot\<lparr>fd := a, state := st\<rparr> = \<lparr>fd = a, state = st, buffer = replicate BUFF_SIZE 0\<rparr>"
  by (simp add: fresh_slot_def)

lemma dispatch_hello:
  "dispatch_slot {4} (Read_bytes [72, 69, 76, 76, 79])
     \<lparr>fd = 4, state = STATE_CONNECTED, buffer = replicate BUFF_SIZE 0\<rparr> =
   ([Sys_read 4 BUFF_SIZE, Printf_s ''Received data from the client: '' [72, 69, 76, 76, 79]],
    \<lparr>fd = 4, state = STATE_CONNECTED, buffer = 72 # 69 # 76 # 76 # 79 # replicate 4091 0\<rparr>)"
  by (simp add: dispatch_slot_def sys_read_def FD_ISSET_def printf_s_def BUFF_SIZE_def)

lemma dispatch_eof:
  "dispatch_slot {4} (Read_bytes [])
     \<lparr>fd = 4, state = STATE_CONNECTED, buffer = 72 # 69 # 76 # 76 # 79 # replicate 4091 0\<rparr> =
   ([Sys_read 4 BUFF_SIZE, Sys_close 4, Printf ''Client disconnected or error''],
    \<lparr>fd = - 1, state = STATE_DISCONNECTED, buffer = 72 # 69 # 76 # 76 # 79 # replicate 4091 0\<rparr>)"
  by (simp add: dispatch_slot_def sys_read_def FD_ISSET_def)

lemma dispatch_ab:
  "dispatch_slot {4} (Read_bytes [97, 98])
     \<lparr>fd = 4, state = STATE_CONNECTED, buffer = 72 # 69 # 76 # 76 # 79 # replicate 4091 0\<rparr> =
   ([Sys_read 4 BUFF_SIZE, Printf_s ''Received data from the client: '' [97, 98, 76, 76, 79]],
    \<lparr>fd = 4, state = STATE_CONNECTED, buffer = 97 # 98 # 76 # 76 # 79 # replicate 4091 0\<rparr>)"
  by (simp add: dispatch_slot_def sys_read_def FD_ISSET_def printf_s_def BUFF_SIZE_def)





lemma listener_dispatch_first_free:
  assumes "FD_ISSET listen_fd rfds" "conn_fd \<noteq> - 1" "k < MAX_CLIENTS" "fd (cs ! k) = - 1"
    "\<forall>j<k. fd (cs ! j) \<noteq> - 1"
  shows "listener_dispatch listen_fd rfds conn_fd cs =
     ([Sys_accept listen_fd, Printf ''New connection''],
      cs[k := (cs ! k)\<lparr>fd := conn_fd, state := STATE_CONNECTED\<rparr>], False)"
  using assms find_free_slot_first[of k cs]
  by (simp add: listener_dispatch_def)


lemma build_fd_sets_has_listener: "listen_fd \<in> fst (build_fd_sets listen_fd cs old)"
  by (simp add: build_fd_sets_fst)

lemma iteration_accept_failure:
  assumes "select_ready e = Some ready" "listen_fd \<in> ready" "accept_ret e = - 1"
  shows "iteration listen_fd e s =
     ([Sys_select (fst (build_fd_sets listen_fd (clientStates s) (read_fds s)))
         (snd (build_fd_sets listen_fd (clientStates s) (read_fds s))),
       Sys_accept listen_fd, Perror ''accpet''],
      Inr \<lparr>clientStates = clientStates s,
           read_fds = fst (build_fd_sets listen_fd (clientStates s) (read_fds s)) \<inter> ready\<rparr>)"
  using assms build_fd_sets_has_listener[of listen_fd "clientStates s" "read_fds s"]
  by (simp add: iteration_def Let_def case_prod_beta listener_dispatch_def FD_ISSET_def)

lemma dispatch_slot_reads:
  "fd c \<noteq> - 1 \<Longrightarrow> FD_ISSET (fd c) rfds \<Longrightarrow>
   filter is_read (fst (dispatch_slot rfds r c)) = [Sys_read (fd c) BUFF_SIZE]"
  by (simp add: dispatch_slot_def printf_s_def case_prod_beta)

lemma dispatch_slot_release:
  "fd c \<noteq> - 1 \<Longrightarrow> FD_ISSET (fd c) rfds \<Longrightarrow> fst (sys_read r BUFF_SIZE (buffer c)) \<le> 0 \<Longrightarrow>
   dispatch_slot rfds r c =
     ([Sys_read (fd c) BUFF_SIZE, Sys_close (fd c), Printf ''Client disconnected or error''],
      c\<lparr>buffer := snd (sys_read r BUFF_SIZE (buffer c)), fd := - 1, state := STATE_DISCONNECTED\<rparr>)"
  by (simp add: dispatch_slot_def case_prod_beta)

lemma dispatch_slot_data:
  "fd c \<noteq> - 1 \<Longrightarrow> FD_ISSET (fd c) rfds \<Longrightarrow> 0 < fst (sys_read r BUFF_SIZE (buffer c)) \<Longrightarrow>
   dispatch_slot rfds r c =
     ([Sys_read (fd c) BUFF_SIZE,
       printf_s ''Received data from the client: '' (snd (sys_read r BUFF_SIZE (buffer c)))],
      c\<lparr>buffer := snd (sys_read r BUFF_SIZE (buffer c))\<rparr>)"
  by (simp add: dispatch_slot_def case_prod_beta)

lemma dispatch_slot_buffer:
  "buffer (snd (dispatch_slot rfds r c)) =
     (if fd c \<noteq> - 1 \<and> FD_ISSET (fd c) rfds then snd (sys_read r BUFF_SIZE (buffer c))
      else buffer c)"
  by (simp add: dispatch_slot_def case_prod_beta)

lemma sys_read_nothing:
  "fst (sys_read r count buf) \<le> 0 \<Longrightarrow> snd (sys_read r count buf) = buf"
  by (cases r) (auto simp: sys_read_def Let_def min_def split: if_splits)

lemma query_without_empty_slot:
  assumes "fd (cs ! i) = - 1"
  shows "fst (build_fd_sets listen_fd cs old) =
     insert listen_fd {fd (cs ! j) | j. j < MAX_CLIENTS \<and> j \<noteq> i \<and> fd (cs ! j) \<noteq> - 1}"
proof -
  have "{fd (cs ! j) | j. j < MAX_CLIENTS \<and> fd (cs ! j) \<noteq> - 1} =
        {fd (cs ! j) | j. j < MAX_CLIENTS \<and> j \<noteq> i \<and> fd (cs ! j) \<noteq> - 1}"
    using assms by auto
  then show ?thesis by (simp add: build_fd_sets_fst)
qed

lemma client_dispatch_first:
  assumes "fd c \<noteq> - 1"
  shows "client_dispatch {fd c} rd 0 (c # replicate 255 fresh_slot) =
     (fst (dispatch_slot {fd c} (rd 0) c),
      snd (dispatch_slot {fd c} (rd 0) c) # replicate 255 fresh_slot)"
proof -
  let ?cs = "c # replicate 255 fresh_slot"
  have "client_dispatch {fd c} rd 0 ?cs =
      (fst (dispatch_slot {fd c} (rd 0) (?cs ! 0)), ?cs[0 := snd (dispatch_slot {fd c} (rd 0) (?cs ! 0))])"
    by (intro client_dispatch_single table_length)
       (auto simp: FD_ISSET_def nth_Cons' fresh_slot_def MAX_CLIENTS_def)
  then show ?thesis by simp
qed

lemma dispatch_eof_zero:
  "dispatch_slot {4} (Read_bytes [])
     \<lparr>fd = 4, state = STATE_CONNECTED, buffer = replicate BUFF_SIZE 0\<rparr> =
   ([Sys_read 4 BUFF_SIZE, Sys_close 4, Printf ''Client disconnected or error''],
    \<lparr>fd = - 1, state = STATE_DISCONNECTED, buffer = replicate BUFF_SIZE 0\<rparr>)"
  by (simp add: dispatch_slot_def sys_read_def FD_ISSET_def)

lemma dispatch_hi:
  "dispatch_slot {4} (Read_bytes [104, 105])
     \<lparr>fd = 4, state = STATE_CONNECTED, buffer = replicate BUFF_SIZE 0\<rparr> =
   ([Sys_read 4 BUFF_SIZE, Printf_s ''Received data from the client: '' [104, 105]],
    \<lparr>fd = 4, state = STATE_CONNECTED, buffer = 104 # 105 # replicate 4094 0\<rparr>)"
  by (simp add: dispatch_slot_def sys_read_def FD_ISSET_def printf_s_def BUFF_SIZE_def)

lemma listener_dispatch_trace:
  "FD_ISSET listen_fd rfds \<Longrightarrow> conn_fd \<noteq> - 1 \<Longrightarrow>
   \<exists>tr1. fst (listener_dispatch listen_fd rfds conn_fd cs) = Sys_accept listen_fd # tr1 \<and>
         filter is_read tr1 = [] \<and> filter is_accept tr1 = [] \<and>
         \<not> snd (snd (listener_dispatch listen_fd rfds conn_fd cs))"
  by (simp add: listener_dispatch_def Let_def)

lemma listener_dispatch_keeps_connected:
  assumes "fd (cs ! j) \<noteq> - 1"
  shows "fst (snd (listener_dispatch listen_fd rfds conn_fd cs)) ! j = cs ! j"
proof (cases "find_free_slot cs = - 1")
  case True
  then show ?thesis by (simp add: listener_dispatch_def)
next
  case False
  then obtain k where k: "find_free_slot cs = int k" "fd (cs ! k) = - 1"
    using find_free_slot_from_some[of 0 cs] by (auto simp: find_free_slot_def)
  with assms have "k \<noteq> j" by auto
  with k show ?thesis by (simp add: listener_dispatch_def Let_def)
qed

lemma iteration_trace:
  assumes "select_ready e = Some ready"
  shows "fst (iteration listen_fd e s) =
    (let q = fst (build_fd_sets listen_fd (clientStates s) (read_fds s));
         n = snd (build_fd_sets listen_fd (clientStates s) (read_fds s));
         ld = listener_dispatch listen_fd (q \<inter> ready) (accept_ret e) (clientStates s)
     in if snd (snd ld) then Sys_select q n # fst ld
        else Sys_select q n # fst ld @
             fst (client_dispatch (q \<inter> ready) (read_ret e) 0 (fst (snd ld))))"
  using assms by (simp add: iteration_def Let_def case_prod_beta)

lemma iteration_accept_second_and_read:
  "iteration 3 \<lparr>select_ready = Some {3, 4}, accept_ret = 5, read_ret = \<lambda>_. Read_bytes [104, 105]\<rparr>
     \<lparr>clientStates = \<lparr>fd = 4, state = STATE_CONNECTED, buffer = replicate BUFF_SIZE 0\<rparr> #
        replicate 255 fresh_slot, read_fds = {3}\<rparr> =
   ([Sys_select {3, 4} 5, Sys_accept 3, Printf ''New connection'', Sys_read 4 BUFF_SIZE,
     Printf_s ''Received data from the client: '' [104, 105]],
    Inr \<lparr>clientStates =
           \<lparr>fd = 4, state = STATE_CONNECTED, buffer = 104 # 105 # replicate 4094 0\<rparr> #
           (replicate 255 fresh_slot)
             [0 := \<lparr>fd = 5, state = STATE_CONNECTED, buffer = replicate BUFF_SIZE 0\<rparr>],
         read_fds = {3, 4}\<rparr>)"
proof -
  let ?c = "\<lparr>fd = 4, state = STATE_CONNECTED, buffer = replicate BUFF_SIZE 0\<rparr>"
  let ?cs = "?c # replicate 255 fresh_slot"
  let ?c5 = "\<lparr>fd = 5, state = STATE_CONNECTED, buffer = replicate BUFF_SIZE 0\<rparr>"
  let ?cs1 = "?c # (replicate 255 fresh_slot)[0 := ?c5]"
  have b: "build_fd_sets 3 ?cs {3} = ({3, 4}, 5)"
    by (simp add: build_fd_sets_eval MAX_CLIENTS_def fresh_slot_def)
  have u: "?cs ! 1 = fresh_slot" by simp
  have ld: "listener_dispatch 3 {3, 4} 5 ?cs = ([Sys_accept 3, Printf ''New connection''], ?cs1, False)"
    using listener_dispatch_first_free[of 3 "{3, 4}" 5 1 ?cs]
    by (simp add: FD_ISSET_def MAX_CLIENTS_def u fresh_slot_fd fresh_slot_connect)
  have n0: "?cs1 ! 0 = ?c" by simp
  have idle: "\<forall>j<MAX_CLIENTS. j \<noteq> 0 \<longrightarrow>
      fd (?cs1 ! j) = - 1 \<or> \<not> FD_ISSET (fd (?cs1 ! j)) {3, 4}"
    by (auto simp: FD_ISSET_def nth_list_update nth_Cons' fresh_slot_def MAX_CLIENTS_def)
  have len: "length ?cs1 = MAX_CLIENTS" by (simp add: MAX_CLIENTS_def)
  have d: "dispatch_slot {3, 4} (Read_bytes [104, 105]) ?c =
     ([Sys_read 4 BUFF_SIZE, Printf_s ''Received data from the client: '' [104, 105]],
      \<lparr>fd = 4, state = STATE_CONNECTED, buffer = 104 # 105 # replicate 4094 0\<rparr>)"
    by (simp add: dispatch_slot_def sys_read_def FD_ISSET_def printf_s_def BUFF_SIZE_def)
  have cd: "client_dispatch {3, 4} (\<lambda>_. Read_bytes [104, 105]) 0 ?cs1 =
     ([Sys_read 4 BUFF_SIZE, Printf_s ''Received data from the client: '' [104, 105]],
      \<lparr>fd = 4, state = STATE_CONNECTED, buffer = 104 # 105 # replicate 4094 0\<rparr> #
      (replicate 255 fresh_slot)[0 := ?c5])"
    using client_dispatch_single[OF len _ idle, of "\<lambda>_. Read_bytes [104, 105]"]
    by (simp only: n0 d fst_conv snd_conv) (simp add: MAX_CLIENTS_def)
  have i: "{3, 4} \<inter> {3, 4} = ({3, 4} :: int set)" by simp
  show ?thesis
    by (simp add: iteration_def Let_def b ld cd)
qed

lemma find_free_slot_le:
  assumes "i < MAX_CLIENTS" "fd (cs ! i) = - 1"
  shows "\<exists>k\<le>i. find_free_slot cs = int k \<and> fd (cs ! k) = - 1"
proof -
  have ne: "find_free_slot_from 0 cs \<noteq> - 1"
    using assms by (auto simp: find_free_slot_from_none)
  from find_free_slot_from_some[OF ne] obtain k where
    k: "find_free_slot_from 0 cs = int k" "fd (cs ! k) = - 1"
       "\<forall>j. 0 \<le> j \<and> j < k \<longrightarrow> fd (cs ! j) \<noteq> - 1"
    by blast
  have "k \<le> i"
    using k(3) assms(2) by (meson le0 not_le_imp_less)
  with k show ?thesis by (auto simp: find_free_slot_def)
qed

lemma sys_read_prefix:
  "length bs \<le> count \<Longrightarrow>
   sys_read (Read_bytes bs) count buf = (int (length bs), bs @ drop (length bs) buf)"
  by (simp add: sys_read_def)

lemma update_keeps_buffers:
  "map buffer (cs[k := (cs ! k)\<lparr>fd := c, state := st\<rparr>]) = map buffer cs"
proof (cases "k < length cs")
  case True
  then show ?thesis
    by (intro nth_equalityI) (auto simp: nth_list_update)
next
  case False
  then have "length cs \<le> k" by simp
  then have "cs[k := (cs ! k)\<lparr>fd := c, state := st\<rparr>] = cs"
    by (rule list_update_beyond)
  then show ?thesis by (simp only:)
qed

lemma listener_dispatch_buffers:
  "map buffer (fst (snd (listener_dispatch listen_fd rfds conn_fd cs))) = map buffer cs"
  by (simp add: listener_dispatch_def Let_def update_keeps_buffers)

lemma client_loop_read_or_reaped:
  assumes "length cs = MAX_CLIENTS" and "i < MAX_CLIENTS"
    and "fd (cs ! i) \<noteq> - 1" and "FD_ISSET (fd (cs ! i)) rfds"
  shows "fst (client_dispatch rfds rd 0 cs) =
       concat (map (\<lambda>j. fst (dispatch_slot rfds (rd j) (cs ! j))) [0..<MAX_CLIENTS]) \<and>
     filter is_read (fst (dispatch_slot rfds (rd i) (cs ! i))) = [Sys_read (fd (cs ! i)) BUFF_SIZE] \<and>
     buffer (snd (client_dispatch rfds rd 0 cs) ! i) =
       snd (sys_read (rd i) BUFF_SIZE (buffer (cs ! i))) \<and>
     (fst (sys_read (rd i) BUFF_SIZE (buffer (cs ! i))) \<le> 0 \<longrightarrow>
        fst (dispatch_slot rfds (rd i) (cs ! i)) =
          [Sys_read (fd (cs ! i)) BUFF_SIZE, Sys_close (fd (cs ! i)),
           Printf ''Client disconnected or error''] \<and>
        fd (snd (client_dispatch rfds rd 0 cs) ! i) = - 1 \<and>
        fst (build_fd_sets listen_fd (snd (client_dispatch rfds rd 0 cs)) old) =
          insert listen_fd
            {fd (snd (client_dispatch rfds rd 0 cs) ! j) | j.
               j < MAX_CLIENTS \<and> j \<noteq> i \<and> fd (snd (client_dispatch rfds rd 0 cs) ! j) \<noteq> - 1}) \<and>
     (0 < fst (sys_read (rd i) BUFF_SIZE (buffer (cs ! i))) \<longrightarrow>
        fst (dispatch_slot rfds (rd i) (cs ! i)) =
          [Sys_read (fd (cs ! i)) BUFF_SIZE,
           printf_s ''Received data from the client: ''
             (snd (sys_read (rd i) BUFF_SIZE (buffer (cs ! i))))] \<and>
        fd (snd (client_dispatch rfds rd 0 cs) ! i) = fd (cs ! i) \<and>
        state (snd (client_dispatch rfds rd 0 cs) ! i) = state (cs ! i))"
proof -
  let ?cs' = "snd (client_dispatch rfds rd 0 cs)"
  have nth: "?cs' ! i = snd (dispatch_slot rfds (rd i) (cs ! i))"
    using assms(1,2) by (rule client_dispatch_nth)
  have tr: "fst (client_dispatch rfds rd 0 cs) =
       concat (map (\<lambda>j. fst (dispatch_slot rfds (rd j) (cs ! j))) [0..<MAX_CLIENTS])"
    using assms(1) by (simp add: client_dispatch_eq)
  have rd1: "filter is_read (fst (dispatch_slot rfds (rd i) (cs ! i))) =
      [Sys_read (fd (cs ! i)) BUFF_SIZE]"
    using assms(3,4) by (rule dispatch_slot_reads)
  have buf: "buffer (?cs' ! i) = snd (sys_read (rd i) BUFF_SIZE (buffer (cs ! i)))"
    using assms(3,4) by (simp add: nth dispatch_slot_buffer)
  have rel: "fst (sys_read (rd i) BUFF_SIZE (buffer (cs ! i))) \<le> 0 \<Longrightarrow>
      fst (dispatch_slot rfds (rd i) (cs ! i)) =
          [Sys_read (fd (cs ! i)) BUFF_SIZE, Sys_close (fd (cs ! i)),
           Printf ''Client disconnected or error''] \<and>
      fd (?cs' ! i) = - 1"
    using assms(3,4) by (simp add: nth dispatch_slot_release)
  have nxt: "fst (sys_read (rd i) BUFF_SIZE (buffer (cs ! i))) \<le> 0 \<Longrightarrow>
      fst (build_fd_sets listen_fd ?cs' old) =
          insert listen_fd {fd (?cs' ! j) | j. j < MAX_CLIENTS \<and> j \<noteq> i \<and> fd (?cs' ! j) \<noteq> - 1}"
    using rel by (intro query_without_empty_slot) simp
  have dat: "0 < fst (sys_read (rd i) BUFF_SIZE (buffer (cs ! i))) \<Longrightarrow>
      fst (dispatch_slot rfds (rd i) (cs ! i)) =
          [Sys_read (fd (cs ! i)) BUFF_SIZE,
           printf_s ''Received data from the client: ''
             (snd (sys_read (rd i) BUFF_SIZE (buffer (cs ! i))))] \<and>
      fd (?cs' ! i) = fd (cs ! i) \<and> state (?cs' ! i) = state (cs ! i)"
    using assms(3,4) by (simp add: nth dispatch_slot_data)
  show ?thesis
    using tr rd1 buf rel nxt dat by blast
qed

lemma listener_dispatch_continue:
  "snd (snd (listener_dispatch listen_fd rfds conn_fd cs)) =
     (FD_ISSET listen_fd rfds \<and> conn_fd = - 1)"
  by (simp add: listener_dispatch_def Let_def)

lemma iteration_reaches_clients:
  assumes "select_ready e = Some ready" and "\<not> (listen_fd \<in> ready \<and> accept_ret e = - 1)"
  shows "iteration listen_fd e s =
    (let q = fst (build_fd_sets listen_fd (clientStates s) (read_fds s));
         n = snd (build_fd_sets listen_fd (clientStates s) (read_fds s));
         ld = listener_dispatch listen_fd (q \<inter> ready) (accept_ret e) (clientStates s);
         cd = client_dispatch (q \<inter> ready) (read_ret e) 0 (fst (snd ld))
     in (Sys_select q n # fst ld @ fst cd, Inr \<lparr>clientStates = snd cd, read_fds = q \<inter> ready\<rparr>))"
proof -
  let ?q = "fst (build_fd_sets listen_fd (clientStates s) (read_fds s))"
  have "\<not> snd (snd (listener_dispatch listen_fd (?q \<inter> ready) (accept_ret e) (clientStates s)))"
    using assms(2) by (auto simp: listener_dispatch_continue FD_ISSET_def)
  then show ?thesis
    using assms(1) by (simp add: iteration_def Let_def case_prod_beta)
qed

lemma select_server_setup_failures:
  "(socket_ret su = - 1 \<longrightarrow>
      select_server_main su es = ([Sys_socket, Perror ''socket''], Inl EXIT_FAILURE)) \<and>
   (socket_ret su \<noteq> - 1 \<and> bind_ret su = - 1 \<longrightarrow>
      select_server_main su es =
        ([Sys_socket, Sys_bind (socket_ret su), Perror ''Bind''], Inl EXIT_FAILURE)) \<and>
   (socket_ret su \<noteq> - 1 \<and> bind_ret su \<noteq> - 1 \<and> listen_ret su = - 1 \<longrightarrow>
      select_server_main su es =
        ([Sys_socket, Sys_bind (socket_ret su), Sys_listen (socket_ret su) 10, Perror ''listen''],
         Inl EXIT_FAILURE)) \<and>
   exit_status EXIT_FAILURE \<noteq> 0"
  by (simp add: select_server_main_def Let_def exit_status_def EXIT_FAILURE_def)

section \<open>Facts about the handshake pair\<close>

lemma server_setup_failures:
  "(srv_socket_ret e = - 1 \<longrightarrow>
      server_main e accepts = ([Sys_socket, Perror ''socket''], Some (- 1))) \<and>
   (srv_socket_ret e \<noteq> - 1 \<and> srv_bind_ret e = - 1 \<longrightarrow>
      server_main e accepts =
        ([Sys_socket, Sys_bind (srv_socket_ret e), Perror ''bind'', Sys_close (srv_socket_ret e)],
         Some (- 1))) \<and>
   exit_status (- 1) \<noteq> 0"
  by (simp add: server_main_def Let_def exit_status_def)

lemma server_listen_result_unused:
  "server_main (e\<lparr>srv_listen_ret := a\<rparr>) accepts = server_main (e\<lparr>srv_listen_ret := b\<rparr>) accepts"
  by (simp add: server_main_def Let_def)

lemma ntohl_htonl: "ntohl_bytes (htonl_bytes v) = v"
proof (rule bit_word_eqI)
  fix n assume "n < LENGTH(32)"
  then show "bit (ntohl_bytes (htonl_bytes v)) n = bit v n"
    by (cases "n < 8"; cases "n < 16"; cases "n < 24")
       (auto simp: ntohl_bytes_def htonl_bytes_def bit_simps)
qed

lemma read_into_zeroed:
  "length bs = 12 \<Longrightarrow>
   snd (sys_read (Read_bytes bs) (sizeof_proto_hdr_t + sizeof_int) (replicate 4096 0)) =
     bs @ replicate 4084 0"
  by (simp add: sys_read_def Let_def sizeof_proto_hdr_t_def sizeof_int_def)

lemma client_decode:
  "client_handle_client sockfd (Read_bytes ([t0, t1, t2, t3, l0, l1, p0, p1] @ htonl_bytes v)) =
     (if ntohl_bytes [t0, t1, t2, t3] \<noteq> PROTO_HELLO then
        [Sys_read sockfd 12, Printf ''Protocol mismatch'']
      else if v \<noteq> 1 then
        [Sys_read sockfd 12, Printf_d ''Version: '' (sint v), Printf ''Protocal version mismatch'']
      else [Sys_read sockfd 12, Printf ''Server connected to protocol v1''])"
proof -
  let ?bs = "[t0, t1, t2, t3, l0, l1, p0, p1] @ htonl_bytes v"
  have len: "length ?bs = 12" by (simp add: htonl_bytes_def)
  have buf: "snd (sys_read (Read_bytes ?bs) (sizeof_proto_hdr_t + sizeof_int) (replicate 4096 0))
      = ?bs @ replicate 4084 0"
    by (rule read_into_zeroed[OF len])
  have l1: "load offsetof_type 4 (?bs @ replicate 4084 0) = [t0, t1, t2, t3]"
    by (simp add: load_def offsetof_type_def)
  have l2: "load sizeof_proto_hdr_t sizeof_int (?bs @ replicate 4084 0) = htonl_bytes v"
    by (simp add: load_def sizeof_proto_hdr_t_def sizeof_int_def htonl_bytes_def)
  show ?thesis
    unfolding client_handle_client_def Let_def buf l1 l2 ntohl_htonl
    by (simp add: sizeof_proto_hdr_t_def sizeof_int_def)
qed

lemma htonl_1: "htonl_bytes 1 = [0,0,0,1]"
  by (simp add: htonl_bytes_def)

lemma ntohl_0: "ntohl_bytes [0,0,0,0] = PROTO_HELLO"
  by (simp add: ntohl_bytes_def PROTO_HELLO_def)

lemma hello_frame_bytes:
  "take (sizeof_proto_hdr_t + sizeof_int)
     (store sizeof_proto_hdr_t (htonl_bytes 1)
       (store offsetof_len (htons_bytes (of_nat sizeof_int))
         (store offsetof_type (htonl_bytes PROTO_HELLO) (replicate 4096 0)))) =
   [0, 0, 0, 0, 0, 4, 0, 0, 0, 0, 0, 1]"
  by code_simp

lemma hello_frame:
  "server_handle_client cfd = [Sys_write cfd [0, 0, 0, 0, 0, 4, 0, 0, 0, 0, 0, 1]]"
  unfolding server_handle_client_def Let_def hello_frame_bytes ..

lemma client_never_writes: "filter is_write (fst (client_main e)) = []"
  by (simp add: client_main_def client_handle_client_def Let_def)

lemma client_closes:
  "2 \<le> argc e \<Longrightarrow> cl_socket_ret e \<noteq> - 1 \<Longrightarrow> cl_connect_ret e \<noteq> - 1 \<Longrightarrow>
   fst (client_main e) =
     [Sys_socket, Sys_connect (cl_socket_ret e)] @
     client_handle_client (cl_socket_ret e) (cl_read_ret e) @ [Sys_close (cl_socket_ret e)]"
  by (simp add: client_main_def Let_def)

lemma frame_fields:
  "ntohl_bytes (load offsetof_type 4 [0, 0, 0, 0, 0, 4, 0, 0, 0, 0, 0, 1]) = PROTO_HELLO"
  "ntohs_bytes (load offsetof_len 2 [0, 0, 0, 0, 0, 4, 0, 0, 0, 0, 0, 1]) = 4"
  "ntohl_bytes (load sizeof_proto_hdr_t sizeof_int [0, 0, 0, 0, 0, 4, 0, 0, 0, 0, 0, 1]) = 1"
  by (simp_all add: load_def offsetof_type_def offsetof_len_def sizeof_proto_hdr_t_def
      sizeof_int_def ntohl_bytes_def ntohs_bytes_def PROTO_HELLO_def)

section \<open>The claims about the multiplexing server\<close>



text \<open>
  Claim C2, as the code has it. Take an iteration that reaches the client loop: \<open>select\<close>
  succeeded, and the listener was not ready or \<open>accept\<close> returned a descriptor. Its trace
  is the \<open>select\<close> call, the listener's actions (no \<open>read\<close> among them), then one segment
  for each index in order. A slot that held a descriptor reported ready is still that slot
  when the client loop runs, and its segment holds exactly one \<open>read\<close>, into its own
  buffer. If \<open>read\<close> returns 0 or less, the segment is the \<open>read\<close>, the \<open>close\<close> and the
  disconnect line, with no handler call; the slot's descriptor is \<open>-1\<close> in the state the
  iteration returns, and the slot adds nothing to the query set built from that state. If
  \<open>read\<close> returns a positive count, the segment is the \<open>read\<close> and the handler's line, and
  the slot keeps its descriptor and its state. An iteration whose \<open>accept\<close> fails is
  excluded: it ends at \<open>continue\<close> and reads no slot.
\<close>

theorem ready_slot_read_or_reaped:
  assumes "length (clientStates s) = MAX_CLIENTS" and "select_ready e = Some ready"
    and "\<not> (listen_fd \<in> ready \<and> accept_ret e = - 1)"
    and "i < MAX_CLIENTS" and "fd (clientStates s ! i) \<noteq> - 1"
    and "fd (clientStates s ! i) \<in> ready"
  shows "\<exists>n tr1 cs1 s'.
     iteration listen_fd e s =
       (Sys_select (fst (build_fd_sets listen_fd (clientStates s) (read_fds s))) n # tr1 @
        concat (map (\<lambda>j. fst (dispatch_slot (read_fds s') (read_ret e j) (cs1 ! j)))
                  [0..<MAX_CLIENTS]),
        Inr s') \<and>
     filter is_read tr1 = [] \<and>
     cs1 ! i = clientStates s ! i \<and>
     filter is_read (fst (dispatch_slot (read_fds s') (read_ret e i) (cs1 ! i))) =
       [Sys_read (fd (clientStates s ! i)) BUFF_SIZE] \<and>
     buffer (clientStates s' ! i) =
       snd (sys_read (read_ret e i) BUFF_SIZE (buffer (clientStates s ! i))) \<and>
     (fst (sys_read (read_ret e i) BUFF_SIZE (buffer (clientStates s ! i))) \<le> 0 \<longrightarrow>
        fst (dispatch_slot (read_fds s') (read_ret e i) (cs1 ! i)) =
          [Sys_read (fd (clientStates s ! i)) BUFF_SIZE, Sys_close (fd (clientStates s ! i)),
           Printf ''Client disconnected or error''] \<and>
        fd (clientStates s' ! i) = - 1 \<and>
        fst (build_fd_sets listen_fd (clientStates s') (read_fds s')) =
          insert listen_fd
            {fd (clientStates s' ! j) | j.
               j < MAX_CLIENTS \<and> j \<noteq> i \<and> fd (clientStates s' ! j) \<noteq> - 1}) \<and>
     (0 < fst (sys_read (read_ret e i) BUFF_SIZE (buffer (clientStates s ! i))) \<longrightarrow>
        fst (dispatch_slot (read_fds s') (read_ret e i) (cs1 ! i)) =
          [Sys_read (fd (clientStates s ! i)) BUFF_SIZE,
           printf_s ''Received data from the client: ''
             (snd (sys_read (read_ret e i) BUFF_SIZE (buffer (clientStates s ! i))))] \<and>
        fd (clientStates s' ! i) = fd (clientStates s ! i) \<and>
        state (clientStates s' ! i) = state (clientStates s ! i))"
proof -
  let ?cs = "clientStates s"
  let ?q = "fst (build_fd_sets listen_fd ?cs (read_fds s))"
  let ?n = "snd (build_fd_sets listen_fd ?cs (read_fds s))"
  let ?r = "?q \<inter> ready"
  let ?ld = "listener_dispatch listen_fd ?r (accept_ret e) ?cs"
  let ?cs1 = "fst (snd ?ld)"
  let ?cd = "client_dispatch ?r (read_ret e) 0 ?cs1"
  let ?s' = "\<lparr>clientStates = snd ?cd, read_fds = ?r\<rparr>"
  have len1: "length ?cs1 = MAX_CLIENTS"
    using assms(1) by (simp add: listener_dispatch_length)
  have keep: "?cs1 ! i = ?cs ! i"
    using assms(5) by (rule listener_dispatch_keeps_connected)
  have "fd (?cs ! i) \<in> ?q"
    using assms(4,5) by (auto simp: build_fd_sets_fst)
  then have rdy: "FD_ISSET (fd (?cs1 ! i)) ?r"
    using assms(6) keep by (simp add: FD_ISSET_def)
  have ne: "fd (?cs1 ! i) \<noteq> - 1" using assms(5) keep by simp
  note loop = client_loop_read_or_reaped[OF len1 assms(4) ne rdy, of "read_ret e" listen_fd ?r]
  have it: "iteration listen_fd e s =
      (Sys_select ?q ?n # fst ?ld @
       concat (map (\<lambda>j. fst (dispatch_slot (read_fds ?s') (read_ret e j) (?cs1 ! j)))
                 [0..<MAX_CLIENTS]),
       Inr ?s')"
    using loop by (simp add: iteration_reaches_clients[OF assms(2,3)] Let_def)
  have nr: "filter is_read (fst ?ld) = []"
    by (simp add: listener_dispatch_def Let_def)
  show ?thesis
    apply (rule exI[of _ ?n], rule exI[of _ "fst ?ld"], rule exI[of _ ?cs1], rule exI[of _ ?s'])
    using it nr keep loop by simp
qed

theorem ready_slot_read_or_reaped_witness:
  "length (\<lparr>fd = 4, state = STATE_CONNECTED, buffer = replicate BUFF_SIZE 0\<rparr> #
           replicate 255 fresh_slot) = MAX_CLIENTS \<and>
   (0 :: nat) < MAX_CLIENTS \<and> (3 :: int) \<notin> {4} \<and> (5 :: int) \<noteq> - 1 \<and>
   fst (sys_read (Read_bytes []) BUFF_SIZE (replicate BUFF_SIZE 0)) = 0 \<and>
   iteration 3 \<lparr>select_ready = Some {4}, accept_ret = - 1, read_ret = \<lambda>_. Read_bytes []\<rparr>
     \<lparr>clientStates = \<lparr>fd = 4, state = STATE_CONNECTED, buffer = replicate BUFF_SIZE 0\<rparr> #
        replicate 255 fresh_slot, read_fds = {3}\<rparr> =
     ([Sys_select {3, 4} 5, Sys_read 4 BUFF_SIZE, Sys_close 4,
       Printf ''Client disconnected or error''],
      Inr \<lparr>clientStates =
             \<lparr>fd = - 1, state = STATE_DISCONNECTED, buffer = replicate BUFF_SIZE 0\<rparr> #
             replicate 255 fresh_slot, read_fds = {4}\<rparr>) \<and>
   fst (build_fd_sets 3
         (\<lparr>fd = - 1, state = STATE_DISCONNECTED, buffer = replicate BUFF_SIZE 0\<rparr> #
          replicate 255 fresh_slot) {4}) = {3} \<and>
   fst (sys_read (Read_bytes [104, 105]) BUFF_SIZE (replicate BUFF_SIZE 0)) = 2 \<and>
   iteration 3
     \<lparr>select_ready = Some {3, 4}, accept_ret = 5, read_ret = \<lambda>_. Read_bytes [104, 105]\<rparr>
     \<lparr>clientStates = \<lparr>fd = 4, state = STATE_CONNECTED, buffer = replicate BUFF_SIZE 0\<rparr> #
        replicate 255 fresh_slot, read_fds = {3}\<rparr> =
     ([Sys_select {3, 4} 5, Sys_accept 3, Printf ''New connection'', Sys_read 4 BUFF_SIZE,
       Printf_s ''Received data from the client: '' [104, 105]],
      Inr \<lparr>clientStates =
             \<lparr>fd = 4, state = STATE_CONNECTED, buffer = 104 # 105 # replicate 4094 0\<rparr> #
             (replicate 255 fresh_slot)
               [0 := \<lparr>fd = 5, state = STATE_CONNECTED, buffer = replicate BUFF_SIZE 0\<rparr>],
           read_fds = {3, 4}\<rparr>)"
proof -
  let ?c = "\<lparr>fd = 4, state = STATE_CONNECTED, buffer = replicate BUFF_SIZE 0\<rparr>"
  let ?s = "\<lparr>clientStates = ?c # replicate 255 fresh_slot, read_fds = {3}\<rparr>"
  let ?e1 = "\<lparr>select_ready = Some {4}, accept_ret = - 1, read_ret = \<lambda>_. Read_bytes []\<rparr>"
  let ?e2 = "\<lparr>select_ready = Some {3, 4}, accept_ret = 5, read_ret = \<lambda>_. Read_bytes [104, 105]\<rparr>"
  have len: "length (clientStates ?s) = MAX_CLIENTS" and i: "(0 :: nat) < MAX_CLIENTS"
    by (simp_all add: MAX_CLIENTS_def)
  have ne: "fd (clientStates ?s ! 0) \<noteq> - 1" by simp
  have s1: "select_ready ?e1 = Some {4}" and s2: "select_ready ?e2 = Some {3, 4}" by simp_all
  have h1: "\<not> (3 \<in> {4 :: int} \<and> accept_ret ?e1 = - 1)" by simp
  have h2: "\<not> (3 \<in> {3, 4 :: int} \<and> accept_ret ?e2 = - 1)" by simp
  have r1: "fd (clientStates ?s ! 0) \<in> {4}" and r2: "fd (clientStates ?s ! 0) \<in> {3, 4}"
    by simp_all
  note t1 = ready_slot_read_or_reaped[OF len s1 h1 i ne r1]
  note t2 = ready_slot_read_or_reaped[OF len s2 h2 i ne r2]
  have b0: "fst (sys_read (Read_bytes []) BUFF_SIZE (replicate BUFF_SIZE 0)) = 0"
    and b2: "fst (sys_read (Read_bytes [104, 105]) BUFF_SIZE (replicate BUFF_SIZE 0)) = 2"
    by (simp_all add: sys_read_def BUFF_SIZE_def)
  have e1: "iteration 3 ?e1 ?s =
     ([Sys_select {3, 4} 5, Sys_read 4 BUFF_SIZE, Sys_close 4,
       Printf ''Client disconnected or error''],
      Inr \<lparr>clientStates =
             \<lparr>fd = - 1, state = STATE_DISCONNECTED, buffer = replicate BUFF_SIZE 0\<rparr> #
             replicate 255 fresh_slot, read_fds = {4}\<rparr>)"
    using iteration_first_ready[of ?c 3 "- 1" "\<lambda>_. Read_bytes []" "{3}"]
    by (simp add: dispatch_eof_zero)
  have q: "fst (build_fd_sets 3
      (\<lparr>fd = - 1, state = STATE_DISCONNECTED, buffer = replicate BUFF_SIZE 0\<rparr> #
       replicate 255 fresh_slot) {4}) = {3}"
    by (simp add: build_fd_sets_eval MAX_CLIENTS_def fresh_slot_def)
  show ?thesis
    using t1 t2 len i b0 b2 e1 q iteration_accept_second_and_read by simp
qed

text \<open>
  The listener and the client of slot 0 are both reported ready and \<open>accept\<close> fails: the
  iteration ends at \<open>continue\<close> and the ready slot is not read, although end of file is
  waiting on it.
\<close>

theorem ready_slot_unread_counterexample:
  "fd ((\<lparr>fd = 4, state = STATE_CONNECTED, buffer = replicate BUFF_SIZE 0\<rparr> #
        replicate 255 fresh_slot) ! 0) = 4 \<and>
   4 \<in> fst (build_fd_sets 3
         (\<lparr>fd = 4, state = STATE_CONNECTED, buffer = replicate BUFF_SIZE 0\<rparr> #
          replicate 255 fresh_slot) {3}) \<inter> {3, 4} \<and>
   iteration 3 \<lparr>select_ready = Some {3, 4}, accept_ret = - 1, read_ret = \<lambda>_. Read_bytes []\<rparr>
     \<lparr>clientStates = \<lparr>fd = 4, state = STATE_CONNECTED, buffer = replicate BUFF_SIZE 0\<rparr> #
        replicate 255 fresh_slot, read_fds = {3}\<rparr> =
     ([Sys_select {3, 4} 5, Sys_accept 3, Perror ''accpet''],
      Inr \<lparr>clientStates = \<lparr>fd = 4, state = STATE_CONNECTED, buffer = replicate BUFF_SIZE 0\<rparr> #
             replicate 255 fresh_slot, read_fds = {3, 4}\<rparr>) \<and>
   filter is_read
     (fst (iteration 3
        \<lparr>select_ready = Some {3, 4}, accept_ret = - 1, read_ret = \<lambda>_. Read_bytes []\<rparr>
        \<lparr>clientStates = \<lparr>fd = 4, state = STATE_CONNECTED, buffer = replicate BUFF_SIZE 0\<rparr> #
           replicate 255 fresh_slot, read_fds = {3}\<rparr>)) = []"
proof -
  let ?c = "\<lparr>fd = 4, state = STATE_CONNECTED, buffer = replicate BUFF_SIZE 0\<rparr>"
  have b: "build_fd_sets 3 (?c # replicate 255 fresh_slot) {3} = ({3, 4}, 5)"
    by (simp add: build_fd_sets_eval MAX_CLIENTS_def fresh_slot_def)
  have it: "iteration 3
      \<lparr>select_ready = Some {3, 4}, accept_ret = - 1, read_ret = \<lambda>_. Read_bytes []\<rparr>
      \<lparr>clientStates = ?c # replicate 255 fresh_slot, read_fds = {3}\<rparr> =
      ([Sys_select {3, 4} 5, Sys_accept 3, Perror ''accpet''],
       Inr \<lparr>clientStates = ?c # replicate 255 fresh_slot, read_fds = {3, 4}\<rparr>)"
    using iteration_accept_failure[of
        "\<lparr>select_ready = Some {3, 4}, accept_ret = - 1, read_ret = \<lambda>_. Read_bytes []\<rparr>"
        "{3, 4}" 3 "\<lparr>clientStates = ?c # replicate 255 fresh_slot, read_fds = {3}\<rparr>"]
    by (simp add: b)
  show ?thesis by (simp add: it b)
qed

text \<open>
  Claim C3. At the start of every iteration the query set is rebuilt from scratch: whatever
  \<open>read_fds\<close> held before, the set handed to \<open>select\<close> is the listening descriptor
  together with the descriptor of every slot whose descriptor is not \<open>-1\<close>, and nothing
  else.
\<close>

theorem query_set_rebuilt:
  "fst (build_fd_sets listen_fd cs old_read_fds) =
     insert listen_fd {fd (cs ! j) | j. j < MAX_CLIENTS \<and> fd (cs ! j) \<noteq> - 1} \<and>
   (\<exists>nfds tr. fst (iteration listen_fd e s) =
      Sys_select (insert listen_fd
        {fd (clientStates s ! j) | j. j < MAX_CLIENTS \<and> fd (clientStates s ! j) \<noteq> - 1}) nfds # tr)"
  using iteration_select[of listen_fd e s] by (simp add: build_fd_sets_fst)

text \<open>
  Claim C4, as the code has it. In an iteration whose \<open>select\<close> succeeds, the trace is the
  \<open>select\<close> call, then the listener dispatch, then the client loop's segments in ascending
  index order. When the listener is ready and \<open>accept\<close> returns a descriptor, the call of
  \<open>accept\<close> comes before every \<open>read\<close>, and every slot that held a ready descriptor is
  read once in that same iteration. When \<open>accept\<close> fails, the iteration ends after the
  error report and no client is read in it. When the listener is not ready, only the
  client loop runs.
\<close>

theorem listener_before_clients:
  assumes "length (clientStates s) = MAX_CLIENTS" and "select_ready e = Some ready"
  shows "(let q = fst (build_fd_sets listen_fd (clientStates s) (read_fds s));
              n = snd (build_fd_sets listen_fd (clientStates s) (read_fds s));
              cs1 = fst (snd (listener_dispatch listen_fd (q \<inter> ready) (accept_ret e)
                               (clientStates s)))
          in (listen_fd \<in> ready \<and> accept_ret e \<noteq> - 1 \<longrightarrow>
                (\<exists>tr1. fst (iteration listen_fd e s) =
                     Sys_select q n # Sys_accept listen_fd # tr1 @
                     concat (map (\<lambda>j. fst (dispatch_slot (q \<inter> ready) (read_ret e j) (cs1 ! j)))
                               [0..<MAX_CLIENTS]) \<and>
                   filter is_read tr1 = [] \<and> filter is_accept tr1 = []) \<and>
                (\<forall>j<MAX_CLIENTS.
                   fd (clientStates s ! j) \<noteq> - 1 \<and> fd (clientStates s ! j) \<in> ready \<longrightarrow>
                   cs1 ! j = clientStates s ! j \<and>
                   filter is_read (fst (dispatch_slot (q \<inter> ready) (read_ret e j) (cs1 ! j))) =
                     [Sys_read (fd (clientStates s ! j)) BUFF_SIZE])) \<and>
             (listen_fd \<in> ready \<and> accept_ret e = - 1 \<longrightarrow>
                fst (iteration listen_fd e s) =
                  [Sys_select q n, Sys_accept listen_fd, Perror ''accpet'']) \<and>
             (listen_fd \<notin> ready \<longrightarrow>
                fst (iteration listen_fd e s) =
                  Sys_select q n #
                  concat (map (\<lambda>j. fst (dispatch_slot (q \<inter> ready) (read_ret e j)
                                          (clientStates s ! j)))
                            [0..<MAX_CLIENTS])))"
proof -
  let ?cs = "clientStates s"
  let ?q = "fst (build_fd_sets listen_fd ?cs (read_fds s))"
  let ?n = "snd (build_fd_sets listen_fd ?cs (read_fds s))"
  let ?r = "?q \<inter> ready"
  let ?ld = "listener_dispatch listen_fd ?r (accept_ret e) ?cs"
  let ?cs1 = "fst (snd ?ld)"
  have len1: "length ?cs1 = MAX_CLIENTS"
    using assms(1) by (simp add: listener_dispatch_length)
  have inq: "listen_fd \<in> ?q" by (rule build_fd_sets_has_listener)
  have a: "\<exists>tr1. fst (iteration listen_fd e s) =
                     Sys_select ?q ?n # Sys_accept listen_fd # tr1 @
                     concat (map (\<lambda>j. fst (dispatch_slot ?r (read_ret e j) (?cs1 ! j)))
                               [0..<MAX_CLIENTS]) \<and>
                   filter is_read tr1 = [] \<and> filter is_accept tr1 = []"
    if h: "listen_fd \<in> ready" "accept_ret e \<noteq> - 1"
  proof -
    have "FD_ISSET listen_fd ?r" using h(1) inq by (simp add: FD_ISSET_def)
    from listener_dispatch_trace[OF this h(2), of ?cs] obtain tr1 where
      t: "fst ?ld = Sys_accept listen_fd # tr1" "filter is_read tr1 = []"
         "filter is_accept tr1 = []" "\<not> snd (snd ?ld)"
      by blast
    have "fst (iteration listen_fd e s) = Sys_select ?q ?n # Sys_accept listen_fd # tr1 @
        fst (client_dispatch ?r (read_ret e) 0 ?cs1)"
      using t(1,4) by (simp add: iteration_trace[OF assms(2)] Let_def)
    then show ?thesis
      using t(2,3) len1 by (simp add: client_dispatch_eq)
  qed
  have b: "?cs1 ! j = ?cs ! j \<and>
           filter is_read (fst (dispatch_slot ?r (read_ret e j) (?cs1 ! j))) =
             [Sys_read (fd (?cs ! j)) BUFF_SIZE]"
    if h: "j < MAX_CLIENTS" "fd (?cs ! j) \<noteq> - 1" "fd (?cs ! j) \<in> ready" for j
  proof -
    have keep: "?cs1 ! j = ?cs ! j"
      using h(2) by (rule listener_dispatch_keeps_connected)
    have "fd (?cs ! j) \<in> ?q"
      using h(1,2) by (auto simp: build_fd_sets_fst)
    then have "FD_ISSET (fd (?cs ! j)) ?r" using h(3) by (simp add: FD_ISSET_def)
    then show ?thesis
      using h(2) keep by (simp add: dispatch_slot_reads)
  qed
  have c: "fst (iteration listen_fd e s) = [Sys_select ?q ?n, Sys_accept listen_fd, Perror ''accpet'']"
    if h: "listen_fd \<in> ready" "accept_ret e = - 1"
    using iteration_accept_failure[OF assms(2) h] by simp
  have d: "fst (iteration listen_fd e s) =
      Sys_select ?q ?n #
      concat (map (\<lambda>j. fst (dispatch_slot ?r (read_ret e j) (?cs ! j))) [0..<MAX_CLIENTS])"
    if h: "listen_fd \<notin> ready"
  proof -
    have "?ld = ([], ?cs, False)"
      using h by (simp add: listener_dispatch_def FD_ISSET_def)
    then show ?thesis
      using assms(1) by (simp add: iteration_trace[OF assms(2)] Let_def client_dispatch_eq)
  qed
  show ?thesis
    unfolding Let_def using a b c d by blast
qed

theorem listener_before_clients_witness:
  "length (\<lparr>fd = 4, state = STATE_CONNECTED, buffer = replicate BUFF_SIZE 0\<rparr> #
           replicate 255 fresh_slot) = MAX_CLIENTS \<and>
   fst (iteration 3
     \<lparr>select_ready = Some {3, 4}, accept_ret = 5, read_ret = \<lambda>_. Read_bytes [104, 105]\<rparr>
     \<lparr>clientStates = \<lparr>fd = 4, state = STATE_CONNECTED, buffer = replicate BUFF_SIZE 0\<rparr> #
        replicate 255 fresh_slot, read_fds = {3}\<rparr>) =
     [Sys_select {3, 4} 5, Sys_accept 3, Printf ''New connection'', Sys_read 4 BUFF_SIZE,
      Printf_s ''Received data from the client: '' [104, 105]] \<and>
   fst (iteration 3
     \<lparr>select_ready = Some {3, 4}, accept_ret = - 1, read_ret = \<lambda>_. Read_bytes [104, 105]\<rparr>
     \<lparr>clientStates = \<lparr>fd = 4, state = STATE_CONNECTED, buffer = replicate BUFF_SIZE 0\<rparr> #
        replicate 255 fresh_slot, read_fds = {3}\<rparr>) =
     [Sys_select {3, 4} 5, Sys_accept 3, Perror ''accpet''] \<and>
   fst (iteration 3
     \<lparr>select_ready = Some {4}, accept_ret = 5, read_ret = \<lambda>_. Read_bytes [104, 105]\<rparr>
     \<lparr>clientStates = \<lparr>fd = 4, state = STATE_CONNECTED, buffer = replicate BUFF_SIZE 0\<rparr> #
        replicate 255 fresh_slot, read_fds = {3}\<rparr>) =
     [Sys_select {3, 4} 5, Sys_read 4 BUFF_SIZE,
      Printf_s ''Received data from the client: '' [104, 105]]"
proof -
  let ?c = "\<lparr>fd = 4, state = STATE_CONNECTED, buffer = replicate BUFF_SIZE 0\<rparr>"
  let ?s = "\<lparr>clientStates = ?c # replicate 255 fresh_slot, read_fds = {3}\<rparr>"
  let ?e1 = "\<lparr>select_ready = Some {3, 4}, accept_ret = 5, read_ret = \<lambda>_. Read_bytes [104, 105]\<rparr>"
  let ?e2 = "\<lparr>select_ready = Some {3, 4}, accept_ret = - 1, read_ret = \<lambda>_. Read_bytes [104, 105]\<rparr>"
  let ?e3 = "\<lparr>select_ready = Some {4}, accept_ret = 5, read_ret = \<lambda>_. Read_bytes [104, 105]\<rparr>"
  have len: "length (clientStates ?s) = MAX_CLIENTS" by (simp add: MAX_CLIENTS_def)
  have b: "build_fd_sets 3 (?c # replicate 255 fresh_slot) {3} = ({3, 4}, 5)"
    by (simp add: build_fd_sets_eval MAX_CLIENTS_def fresh_slot_def)
  have t2: "fst (iteration 3 ?e2 ?s) = [Sys_select {3, 4} 5, Sys_accept 3, Perror ''accpet'']"
    using listener_before_clients[OF len, of ?e2 "{3, 4}" 3] by (simp add: b Let_def)
  have t1: "fst (iteration 3 ?e1 ?s) =
     [Sys_select {3, 4} 5, Sys_accept 3, Printf ''New connection'', Sys_read 4 BUFF_SIZE,
      Printf_s ''Received data from the client: '' [104, 105]]"
    by (simp only: iteration_accept_second_and_read fst_conv)
  have t3: "fst (iteration 3 ?e3 ?s) =
     [Sys_select {3, 4} 5, Sys_read 4 BUFF_SIZE,
      Printf_s ''Received data from the client: '' [104, 105]]"
    using iteration_first_ready[of ?c 3 5 "\<lambda>_. Read_bytes [104, 105]" "{3}"]
    by (simp add: dispatch_hi)
  show ?thesis
    using len t1 t2 t3 by simp
qed

text \<open>
  With the listener and the client of slot 0 both ready, a failed \<open>accept\<close> ends the iteration:
  no \<open>read\<close> is issued for the ready client.
\<close>

theorem accept_failure_skips_clients_counterexample:
  "select_server_main \<lparr>socket_ret = 3, bind_ret = 0, listen_ret = 0, stack_read_fds = {}\<rparr>
     [\<lparr>select_ready = Some {3}, accept_ret = 4, read_ret = \<lambda>_. Read_error\<rparr>,
      \<lparr>select_ready = Some {3, 4}, accept_ret = - 1, read_ret = \<lambda>_. Read_bytes [104, 105]\<rparr>] =
     ([Sys_socket, Sys_bind 3, Sys_listen 3 10, Printf ''Server listening on port 8080'',
       Sys_select {3} 4, Sys_accept 3, Printf ''New connection'',
       Sys_select {3, 4} 5, Sys_accept 3, Perror ''accpet''],
      Inr \<lparr>clientStates = \<lparr>fd = 4, state = STATE_CONNECTED, buffer = replicate BUFF_SIZE 0\<rparr> #
             replicate 255 fresh_slot, read_fds = {3, 4}\<rparr>) \<and>
   filter is_read
     (fst (select_server_main
        \<lparr>socket_ret = 3, bind_ret = 0, listen_ret = 0, stack_read_fds = {}\<rparr>
        [\<lparr>select_ready = Some {3}, accept_ret = 4, read_ret = \<lambda>_. Read_error\<rparr>,
         \<lparr>select_ready = Some {3, 4}, accept_ret = - 1,
            read_ret = \<lambda>_. Read_bytes [104, 105]\<rparr>])) = []"
proof -
  let ?c = "\<lparr>fd = 4, state = STATE_CONNECTED, buffer = replicate BUFF_SIZE 0\<rparr>"
  have i1: "iteration 3 \<lparr>select_ready = Some {3}, accept_ret = 4, read_ret = \<lambda>_. Read_error\<rparr>
      \<lparr>clientStates = fresh_slot # replicate 255 fresh_slot, read_fds = {}\<rparr> =
      ([Sys_select {3} 4, Sys_accept 3, Printf ''New connection''],
       Inr \<lparr>clientStates = ?c # replicate 255 fresh_slot, read_fds = {3}\<rparr>)"
    using iteration_accept_first[of fresh_slot 4 3 "\<lambda>_. Read_error" "{}"]
    by (simp add: fresh_slot_fd fresh_slot_connect)
  have b: "build_fd_sets 3 (?c # replicate 255 fresh_slot) {3} = ({3, 4}, 5)"
    by (simp add: build_fd_sets_eval MAX_CLIENTS_def fresh_slot_def)
  have i2: "iteration 3
      \<lparr>select_ready = Some {3, 4}, accept_ret = - 1, read_ret = \<lambda>_. Read_bytes [104, 105]\<rparr>
      \<lparr>clientStates = ?c # replicate 255 fresh_slot, read_fds = {3}\<rparr> =
      ([Sys_select {3, 4} 5, Sys_accept 3, Perror ''accpet''],
       Inr \<lparr>clientStates = ?c # replicate 255 fresh_slot, read_fds = {3, 4}\<rparr>)"
    using iteration_accept_failure[of
        "\<lparr>select_ready = Some {3, 4}, accept_ret = - 1, read_ret = \<lambda>_. Read_bytes [104, 105]\<rparr>"
        "{3, 4}" 3 "\<lparr>clientStates = ?c # replicate 255 fresh_slot, read_fds = {3}\<rparr>"]
    by (simp add: b)
  show ?thesis
    by (simp add: select_server_main_def init_clients_eq static_length table_unfold i1 i2)
qed

text \<open>
  Claim C6, as the code has it. A slot released because its \<open>read\<close> returned 0 or less has
  descriptor \<open>-1\<close>, so the next \<open>find_free_slot\<close> returns the lowest free index, which is
  at most the released slot's and is the released slot's when no lower slot is free. The
  released slot keeps its buffer and has state \<open>STATE_DISCONNECTED\<close>: only its descriptor
  is that of a fresh slot.
\<close>

theorem released_slot_free_not_fresh:
  assumes "length cs = MAX_CLIENTS" and "i < MAX_CLIENTS"
    and "fd (cs ! i) \<noteq> - 1" and "FD_ISSET (fd (cs ! i)) rfds"
    and "fst (sys_read (rd i) BUFF_SIZE (buffer (cs ! i))) \<le> 0"
  shows "snd (client_dispatch rfds rd 0 cs) ! i =
       (cs ! i)\<lparr>fd := - 1, state := STATE_DISCONNECTED\<rparr> \<and>
     (\<exists>k\<le>i. find_free_slot (snd (client_dispatch rfds rd 0 cs)) = int k) \<and>
     ((\<forall>j<i. fd (snd (client_dispatch rfds rd 0 cs) ! j) \<noteq> - 1) \<longrightarrow>
        find_free_slot (snd (client_dispatch rfds rd 0 cs)) = int i)"
proof -
  let ?cs' = "snd (client_dispatch rfds rd 0 cs)"
  have "?cs' ! i = snd (dispatch_slot rfds (rd i) (cs ! i))"
    using assms(1,2) by (rule client_dispatch_nth)
  then have slot: "?cs' ! i = (cs ! i)\<lparr>fd := - 1, state := STATE_DISCONNECTED\<rparr>"
    using assms(3,4,5) by (simp add: dispatch_slot_release sys_read_nothing)
  then have free: "fd (?cs' ! i) = - 1" by simp
  have le: "\<exists>k\<le>i. find_free_slot ?cs' = int k"
    using find_free_slot_le[OF assms(2) free] by blast
  have first: "(\<forall>j<i. fd (?cs' ! j) \<noteq> - 1) \<longrightarrow> find_free_slot ?cs' = int i"
    using find_free_slot_first[OF assms(2) free] by blast
  show ?thesis using slot le first by blast
qed

theorem released_slot_free_not_fresh_witness:
  "length (\<lparr>fd = 4, state = STATE_CONNECTED, buffer = replicate BUFF_SIZE 0\<rparr> #
           replicate 255 fresh_slot) = MAX_CLIENTS \<and>
   (0 :: nat) < MAX_CLIENTS \<and> FD_ISSET 4 {4} \<and>
   fst (sys_read (Read_bytes []) BUFF_SIZE (replicate BUFF_SIZE 0)) = 0 \<and>
   snd (client_dispatch {4} (\<lambda>_. Read_bytes []) 0
         (\<lparr>fd = 4, state = STATE_CONNECTED, buffer = replicate BUFF_SIZE 0\<rparr> #
          replicate 255 fresh_slot)) ! 0 =
     \<lparr>fd = - 1, state = STATE_DISCONNECTED, buffer = replicate BUFF_SIZE 0\<rparr> \<and>
   find_free_slot (snd (client_dispatch {4} (\<lambda>_. Read_bytes []) 0
         (\<lparr>fd = 4, state = STATE_CONNECTED, buffer = replicate BUFF_SIZE 0\<rparr> #
          replicate 255 fresh_slot))) = 0"
proof -
  let ?c = "\<lparr>fd = 4, state = STATE_CONNECTED, buffer = replicate BUFF_SIZE 0\<rparr>"
  let ?cs = "?c # replicate 255 fresh_slot"
  have len: "length ?cs = MAX_CLIENTS" and i: "(0 :: nat) < MAX_CLIENTS"
    by (simp_all add: MAX_CLIENTS_def)
  have ne: "fd (?cs ! 0) \<noteq> - 1" and rdy: "FD_ISSET (fd (?cs ! 0)) {4}"
    by (simp_all add: FD_ISSET_def)
  have r0: "fst (sys_read ((\<lambda>_. Read_bytes []) (0 :: nat)) BUFF_SIZE (buffer (?cs ! 0))) \<le> 0"
    by (simp add: sys_read_def)
  have r0': "fst (sys_read (Read_bytes []) BUFF_SIZE (replicate BUFF_SIZE 0)) = 0"
    by (simp add: sys_read_def)
  show ?thesis
    using released_slot_free_not_fresh[OF len i ne rdy r0] len i r0'
    by (simp add: FD_ISSET_def)
qed

text \<open>
  A slot released after end of file differs from a freshly initialised one: its state
  member is \<open>STATE_DISCONNECTED\<close>, not \<open>STATE_NEW\<close>.
\<close>

theorem released_slot_counterexample:
  "snd (client_dispatch {4} (\<lambda>_. Read_bytes []) 0
         (\<lparr>fd = 4, state = STATE_CONNECTED, buffer = replicate BUFF_SIZE 0\<rparr> #
          replicate 255 fresh_slot)) ! 0 =
     \<lparr>fd = - 1, state = STATE_DISCONNECTED, buffer = replicate BUFF_SIZE 0\<rparr> \<and>
   init_clients static_clientStates ! 0 =
     \<lparr>fd = - 1, state = STATE_NEW, buffer = replicate BUFF_SIZE 0\<rparr> \<and>
   snd (client_dispatch {4} (\<lambda>_. Read_bytes []) 0
         (\<lparr>fd = 4, state = STATE_CONNECTED, buffer = replicate BUFF_SIZE 0\<rparr> #
          replicate 255 fresh_slot)) ! 0 \<noteq>
   init_clients static_clientStates ! 0"
proof -
  let ?c = "\<lparr>fd = 4, state = STATE_CONNECTED, buffer = replicate BUFF_SIZE 0\<rparr>"
  have e1: "client_dispatch {4} (\<lambda>_. Read_bytes []) 0 (?c # replicate 255 fresh_slot) =
      ([Sys_read 4 BUFF_SIZE, Sys_close 4, Printf ''Client disconnected or error''],
       \<lparr>fd = - 1, state = STATE_DISCONNECTED, buffer = replicate BUFF_SIZE 0\<rparr> #
       replicate 255 fresh_slot)"
    using client_dispatch_first[of ?c "\<lambda>_. Read_bytes []"] by (simp add: dispatch_eof_zero)
  have e2: "init_clients static_clientStates ! 0 =
     \<lparr>fd = - 1, state = STATE_NEW, buffer = replicate BUFF_SIZE 0\<rparr>"
    by (simp add: init_clients_eq static_length table_unfold fresh_slot_def)
  show ?thesis by (simp add: e1 e2)
qed

text \<open>
  Claim C7, as the code has it. After the client loop the buffer of a slot is what its own
  \<open>read\<close> made of its own previous buffer if the slot held a ready descriptor, and is
  unchanged otherwise: no slot's buffer depends on another slot's data. A \<open>read\<close> that
  delivers \<open>n\<close> bytes overwrites the first \<open>n\<close> bytes and leaves the rest of the buffer as
  it was, a failed \<open>read\<close> leaves all of it, and accepting a connection changes no buffer.
\<close>

theorem read_writes_own_buffer_prefix:
  assumes "length cs = MAX_CLIENTS" and "j < MAX_CLIENTS" and "length bs \<le> BUFF_SIZE"
  shows "buffer (snd (client_dispatch rfds rd 0 cs) ! j) =
       (if fd (cs ! j) \<noteq> - 1 \<and> FD_ISSET (fd (cs ! j)) rfds
        then snd (sys_read (rd j) BUFF_SIZE (buffer (cs ! j))) else buffer (cs ! j)) \<and>
     sys_read (Read_bytes bs) BUFF_SIZE buf = (int (length bs), bs @ drop (length bs) buf) \<and>
     sys_read Read_error BUFF_SIZE buf = (- 1, buf) \<and>
     map buffer (fst (snd (listener_dispatch listen_fd rfds' conn_fd cs))) = map buffer cs"
  using assms
  by (simp add: client_dispatch_nth dispatch_slot_buffer sys_read_prefix listener_dispatch_buffers)
     (simp add: sys_read_def)

theorem read_writes_own_buffer_prefix_witness:
  "length (\<lparr>fd = 4, state = STATE_CONNECTED, buffer = 72 # 69 # 76 # 76 # 79 # replicate 4091 0\<rparr> #
           replicate 255 fresh_slot) = MAX_CLIENTS \<and>
   (0 :: nat) < MAX_CLIENTS \<and> length [97, 98 :: byte] \<le> BUFF_SIZE \<and>
   buffer (snd (client_dispatch {4} (\<lambda>_. Read_bytes [97, 98]) 0
      (\<lparr>fd = 4, state = STATE_CONNECTED, buffer = 72 # 69 # 76 # 76 # 79 # replicate 4091 0\<rparr> #
       replicate 255 fresh_slot)) ! 0) =
     97 # 98 # 76 # 76 # 79 # replicate 4091 0 \<and>
   sys_read (Read_bytes [97, 98]) BUFF_SIZE (72 # 69 # 76 # 76 # 79 # replicate 4091 0) =
     (2, 97 # 98 # 76 # 76 # 79 # replicate 4091 0)"
proof -
  let ?c = "\<lparr>fd = 4, state = STATE_CONNECTED, buffer = 72 # 69 # 76 # 76 # 79 # replicate 4091 0\<rparr>"
  let ?cs = "?c # replicate 255 fresh_slot"
  have len: "length ?cs = MAX_CLIENTS" and i: "(0 :: nat) < MAX_CLIENTS"
    by (simp_all add: MAX_CLIENTS_def)
  have l: "length [97, 98 :: byte] \<le> BUFF_SIZE" by (simp add: BUFF_SIZE_def)
  show ?thesis
    using read_writes_own_buffer_prefix[OF len i l, of "{4}" "\<lambda>_. Read_bytes [97, 98]"
        "72 # 69 # 76 # 76 # 79 # replicate 4091 0" 3 "{3}" 5] len i l
    by (simp add: FD_ISSET_def)
qed

text \<open>
  A run of the program: a client connects and sends \<open>HELLO\<close>, then closes; the next client
  is given the same slot and sends \<open>ab\<close>. The line printed for the second client is
  \<open>abLLO\<close>: three bytes of the first client's message follow the two bytes the second
  one sent.
\<close>

theorem buffer_residue_counterexample:
  "select_server_main \<lparr>socket_ret = 3, bind_ret = 0, listen_ret = 0, stack_read_fds = {}\<rparr>
     [\<lparr>select_ready = Some {3}, accept_ret = 4, read_ret = \<lambda>_. Read_error\<rparr>,
      \<lparr>select_ready = Some {4}, accept_ret = - 1, read_ret = \<lambda>_. Read_bytes [72, 69, 76, 76, 79]\<rparr>,
      \<lparr>select_ready = Some {4}, accept_ret = - 1, read_ret = \<lambda>_. Read_bytes []\<rparr>,
      \<lparr>select_ready = Some {3}, accept_ret = 4, read_ret = \<lambda>_. Read_error\<rparr>,
      \<lparr>select_ready = Some {4}, accept_ret = - 1, read_ret = \<lambda>_. Read_bytes [97, 98]\<rparr>] =
   ([Sys_socket, Sys_bind 3, Sys_listen 3 10, Printf ''Server listening on port 8080'',
     Sys_select {3} 4, Sys_accept 3, Printf ''New connection'',
     Sys_select {3, 4} 5, Sys_read 4 BUFF_SIZE,
       Printf_s ''Received data from the client: '' [72, 69, 76, 76, 79],
     Sys_select {3, 4} 5, Sys_read 4 BUFF_SIZE, Sys_close 4, Printf ''Client disconnected or error'',
     Sys_select {3} 4, Sys_accept 3, Printf ''New connection'',
     Sys_select {3, 4} 5, Sys_read 4 BUFF_SIZE,
       Printf_s ''Received data from the client: '' [97, 98, 76, 76, 79]],
    Inr \<lparr>clientStates =
           \<lparr>fd = 4, state = STATE_CONNECTED, buffer = 97 # 98 # 76 # 76 # 79 # replicate 4091 0\<rparr>
           # replicate 255 fresh_slot,
         read_fds = {4}\<rparr>)"
proof -
  let ?c1 = "\<lparr>fd = 4, state = STATE_CONNECTED, buffer = replicate BUFF_SIZE 0\<rparr>"
  let ?c2 = "\<lparr>fd = 4, state = STATE_CONNECTED, buffer = 72 # 69 # 76 # 76 # 79 # replicate 4091 0\<rparr>"
  let ?c3 = "\<lparr>fd = - 1, state = STATE_DISCONNECTED, buffer = 72 # 69 # 76 # 76 # 79 # replicate 4091 0\<rparr>"
  let ?c5 = "\<lparr>fd = 4, state = STATE_CONNECTED, buffer = 97 # 98 # 76 # 76 # 79 # replicate 4091 0\<rparr>"
  have i1: "iteration 3 \<lparr>select_ready = Some {3}, accept_ret = 4, read_ret = \<lambda>_. Read_error\<rparr>
      \<lparr>clientStates = fresh_slot # replicate 255 fresh_slot, read_fds = {}\<rparr> =
      ([Sys_select {3} 4, Sys_accept 3, Printf ''New connection''],
       Inr \<lparr>clientStates = ?c1 # replicate 255 fresh_slot, read_fds = {3}\<rparr>)"
    using iteration_accept_first[of fresh_slot 4 3 "\<lambda>_. Read_error" "{}"]
    by (simp add: fresh_slot_fd fresh_slot_connect)
  have i2: "iteration 3 \<lparr>select_ready = Some {4}, accept_ret = - 1,
        read_ret = \<lambda>_. Read_bytes [72, 69, 76, 76, 79]\<rparr>
      \<lparr>clientStates = ?c1 # replicate 255 fresh_slot, read_fds = {3}\<rparr> =
      ([Sys_select {3, 4} 5, Sys_read 4 BUFF_SIZE,
        Printf_s ''Received data from the client: '' [72, 69, 76, 76, 79]],
       Inr \<lparr>clientStates = ?c2 # replicate 255 fresh_slot, read_fds = {4}\<rparr>)"
    using iteration_first_ready[of ?c1 3 "- 1" "\<lambda>_. Read_bytes [72, 69, 76, 76, 79]" "{3}"]
    by (simp add: dispatch_hello)
  have i3: "iteration 3 \<lparr>select_ready = Some {4}, accept_ret = - 1, read_ret = \<lambda>_. Read_bytes []\<rparr>
      \<lparr>clientStates = ?c2 # replicate 255 fresh_slot, read_fds = {4}\<rparr> =
      ([Sys_select {3, 4} 5, Sys_read 4 BUFF_SIZE, Sys_close 4,
        Printf ''Client disconnected or error''],
       Inr \<lparr>clientStates = ?c3 # replicate 255 fresh_slot, read_fds = {4}\<rparr>)"
    using iteration_first_ready[of ?c2 3 "- 1" "\<lambda>_. Read_bytes []" "{4}"]
    by (simp add: dispatch_eof)
  have i4: "iteration 3 \<lparr>select_ready = Some {3}, accept_ret = 4, read_ret = \<lambda>_. Read_error\<rparr>
      \<lparr>clientStates = ?c3 # replicate 255 fresh_slot, read_fds = {4}\<rparr> =
      ([Sys_select {3} 4, Sys_accept 3, Printf ''New connection''],
       Inr \<lparr>clientStates = ?c2 # replicate 255 fresh_slot, read_fds = {3}\<rparr>)"
    using iteration_accept_first[of ?c3 4 3 "\<lambda>_. Read_error" "{4}"]
    by simp
  have i5: "iteration 3 \<lparr>select_ready = Some {4}, accept_ret = - 1, read_ret = \<lambda>_. Read_bytes [97, 98]\<rparr>
      \<lparr>clientStates = ?c2 # replicate 255 fresh_slot, read_fds = {3}\<rparr> =
      ([Sys_select {3, 4} 5, Sys_read 4 BUFF_SIZE,
        Printf_s ''Received data from the client: '' [97, 98, 76, 76, 79]],
       Inr \<lparr>clientStates = ?c5 # replicate 255 fresh_slot, read_fds = {4}\<rparr>)"
    using iteration_first_ready[of ?c2 3 "- 1" "\<lambda>_. Read_bytes [97, 98]" "{3}"]
    by (simp add: dispatch_ab)
  show ?thesis
    by (simp add: select_server_main_def init_clients_eq static_length table_unfold
        i1 i2 i3 i4 i5)
qed



section \<open>The claims about the handshake pair\<close>

text \<open>
  Claim C5, as the code has it. The greeting is written by the server's \<open>handle_client\<close>
  and checked by the client's. The frame is the 12 bytes \<open>00 00 00 00 00 04 00 00 00 00 00 01\<close>:
  the type, the length, the two padding bytes of the header structure, and the payload,
  each field most significant byte first. The receiver decodes type 0, length 4 and
  payload 1 from it and logs the version-1 line; for type 0 and any payload other than 1 it
  logs the version and a mismatch. The client never writes to the socket, and after the
  check it closes it.
\<close>

theorem handshake_exchange:
  "server_handle_client cfd = [Sys_write cfd [0, 0, 0, 0, 0, 4, 0, 0, 0, 0, 0, 1]] \<and>
   ntohl_bytes (load offsetof_type 4 [0, 0, 0, 0, 0, 4, 0, 0, 0, 0, 0, 1]) = PROTO_HELLO \<and>
   ntohs_bytes (load offsetof_len 2 [0, 0, 0, 0, 0, 4, 0, 0, 0, 0, 0, 1]) = 4 \<and>
   ntohl_bytes (load sizeof_proto_hdr_t sizeof_int [0, 0, 0, 0, 0, 4, 0, 0, 0, 0, 0, 1]) = 1 \<and>
   client_handle_client sockfd (Read_bytes [0, 0, 0, 0, 0, 4, 0, 0, 0, 0, 0, 1]) =
     [Sys_read sockfd 12, Printf ''Server connected to protocol v1''] \<and>
   (v \<noteq> 1 \<longrightarrow>
      client_handle_client sockfd (Read_bytes ([0, 0, 0, 0, 0, 4, 0, 0] @ htonl_bytes v)) =
        [Sys_read sockfd 12, Printf_d ''Version: '' (sint v),
         Printf ''Protocal version mismatch'']) \<and>
   filter is_write (fst (client_main e)) = [] \<and>
   (2 \<le> argc e \<and> cl_socket_ret e \<noteq> - 1 \<and> cl_connect_ret e \<noteq> - 1 \<longrightarrow>
      fst (client_main e) =
        [Sys_socket, Sys_connect (cl_socket_ret e)] @
        client_handle_client (cl_socket_ret e) (cl_read_ret e) @ [Sys_close (cl_socket_ret e)])"
proof -
  have ok: "client_handle_client sockfd (Read_bytes [0, 0, 0, 0, 0, 4, 0, 0, 0, 0, 0, 1]) =
     [Sys_read sockfd 12, Printf ''Server connected to protocol v1'']"
    using client_decode[of sockfd 0 0 0 0 0 4 0 0 1] by (simp add: htonl_1 ntohl_0)
  have bad: "v \<noteq> 1 \<Longrightarrow>
      client_handle_client sockfd (Read_bytes ([0, 0, 0, 0, 0, 4, 0, 0] @ htonl_bytes v)) =
        [Sys_read sockfd 12, Printf_d ''Version: '' (sint v),
         Printf ''Protocal version mismatch'']"
    using client_decode[of sockfd 0 0 0 0 0 4 0 0 v] by (simp add: ntohl_0)
  show ?thesis
    using ok bad by (simp add: hello_frame frame_fields client_never_writes client_closes)
qed

theorem handshake_exchange_witness:
  "(2 :: 32 word) \<noteq> 1 \<and>
   client_handle_client 3 (Read_bytes [0, 0, 0, 0, 0, 4, 0, 0, 0, 0, 0, 2]) =
     [Sys_read 3 12, Printf_d ''Version: '' 2, Printf ''Protocal version mismatch''] \<and>
   fst (client_main \<lparr>argc = 2, cl_socket_ret = 3, cl_connect_ret = 0,
         cl_read_ret = Read_bytes [0, 0, 0, 0, 0, 4, 0, 0, 0, 0, 0, 1]\<rparr>) =
     [Sys_socket, Sys_connect 3, Sys_read 3 12, Printf ''Server connected to protocol v1'',
      Sys_close 3]"
  using handshake_exchange[of 4 3 2
      "\<lparr>argc = 2, cl_socket_ret = 3, cl_connect_ret = 0,
         cl_read_ret = Read_bytes [0, 0, 0, 0, 0, 4, 0, 0, 0, 0, 0, 1]\<rparr>"]
  by (simp add: htonl_bytes_def)

text \<open>
  The frame of ten bytes is not what the sender writes, and a receiver given those ten
  bytes reads the payload from offset 8 of its zeroed buffer and finds version 65536.
\<close>

theorem ten_byte_frame_counterexample:
  "server_handle_client 4 = [Sys_write 4 [0, 0, 0, 0, 0, 4, 0, 0, 0, 0, 0, 1]] \<and>
   server_handle_client 4 \<noteq> [Sys_write 4 [0, 0, 0, 0, 0, 4, 0, 0, 0, 1]] \<and>
   client_handle_client 3 (Read_bytes [0, 0, 0, 0, 0, 4, 0, 0, 0, 1]) =
     [Sys_read 3 12, Printf_d ''Version: '' 65536, Printf ''Protocal version mismatch'']"
proof -
  have "client_handle_client 3 (Read_bytes [0, 0, 0, 0, 0, 4, 0, 0, 0, 1]) =
     [Sys_read 3 12, Printf_d ''Version: '' 65536, Printf ''Protocal version mismatch'']"
    by code_simp
  then show ?thesis by (simp add: hello_frame)
qed

text \<open>
  Claim C9. The multiplexing server reports each failed set-up call and exits with
  \<open>EXIT_FAILURE\<close> (\<open>select_server_setup_failures\<close>), and the greeting server reports a
  failed \<open>socket\<close> or \<open>bind\<close> and returns \<open>-1\<close> (\<open>server_setup_failures\<close>). But the body
  of the greeting server's test on \<open>listen\<close> is empty. When \<open>listen\<close> fails, and \<open>accept\<close>
  on the socket that is not listening then fails too, the failure of \<open>listen\<close> is not
  reported and the program goes on to call \<open>accept\<close>; what it reports is the failure of
  \<open>accept\<close>, and only then does it return. Whatever \<open>listen\<close> returned, the program does
  the same.
\<close>

theorem server_listen_failure_ignored:
  "server_main \<lparr>srv_socket_ret = 3, srv_bind_ret = 0, srv_listen_ret = - 1\<rparr> [- 1] =
     ([Sys_socket, Sys_bind 3, Sys_listen 3 0, Sys_accept 3, Printf ''clientSize'',
       Perror ''accept'', Sys_close 3], Some (- 1)) \<and>
   Perror ''listen'' \<notin> set (fst (server_main
     \<lparr>srv_socket_ret = 3, srv_bind_ret = 0, srv_listen_ret = - 1\<rparr> [- 1])) \<and>
   Sys_accept 3 \<in> set (fst (server_main
     \<lparr>srv_socket_ret = 3, srv_bind_ret = 0, srv_listen_ret = - 1\<rparr> [- 1])) \<and>
   server_main \<lparr>srv_socket_ret = 3, srv_bind_ret = 0, srv_listen_ret = - 1\<rparr> [- 1] =
   server_main \<lparr>srv_socket_ret = 3, srv_bind_ret = 0, srv_listen_ret = 0\<rparr> [- 1]"
  by (simp add: server_main_def)

text \<open>
  Claim C10. When \<open>connect\<close> fails the client reports it, closes its socket and returns 0,
  the exit status of success; when the argument is missing or \<open>socket\<close> fails it returns
  \<open>-1\<close>, which the parent sees as the non-zero status 255.
\<close>

theorem client_exit_codes:
  "(2 \<le> argc e1 \<and> cl_socket_ret e1 \<noteq> - 1 \<and> cl_connect_ret e1 = - 1 \<longrightarrow>
      client_main e1 =
        ([Sys_socket, Sys_connect (cl_socket_ret e1), Perror ''connect'',
          Sys_close (cl_socket_ret e1)], 0) \<and>
      exit_status (snd (client_main e1)) = 0) \<and>
   (2 \<le> argc e2 \<and> cl_socket_ret e2 = - 1 \<longrightarrow>
      client_main e2 = ([Sys_socket, Perror ''socket''], - 1) \<and>
      exit_status (snd (client_main e2)) \<noteq> 0) \<and>
   (argc e3 < 2 \<longrightarrow>
      client_main e3 = ([Fprintf_stderr ''Usage: <IP_ADDRESS>''], - 1) \<and>
      exit_status (snd (client_main e3)) \<noteq> 0)"
  by (simp add: client_main_def exit_status_def Let_def)

theorem client_exit_codes_witness:
  "client_main \<lparr>argc = 2, cl_socket_ret = 3, cl_connect_ret = - 1, cl_read_ret = Read_error\<rparr> =
     ([Sys_socket, Sys_connect 3, Perror ''connect'', Sys_close 3], 0) \<and>
   exit_status (snd (client_main
     \<lparr>argc = 2, cl_socket_ret = 3, cl_connect_ret = - 1, cl_read_ret = Read_error\<rparr>)) = 0 \<and>
   client_main \<lparr>argc = 2, cl_socket_ret = - 1, cl_connect_ret = 0, cl_read_ret = Read_error\<rparr> =
     ([Sys_socket, Perror ''socket''], - 1) \<and>
   exit_status (snd (client_main
     \<lparr>argc = 2, cl_socket_ret = - 1, cl_connect_ret = 0, cl_read_ret = Read_error\<rparr>)) = 255 \<and>
   client_main \<lparr>argc = 1, cl_socket_ret = 3, cl_connect_ret = 0, cl_read_ret = Read_error\<rparr> =
     ([Fprintf_stderr ''Usage: <IP_ADDRESS>''], - 1) \<and>
   exit_status (snd (client_main
     \<lparr>argc = 1, cl_socket_ret = 3, cl_connect_ret = 0, cl_read_ret = Read_error\<rparr>)) = 255"
  using client_exit_codes[of
      "\<lparr>argc = 2, cl_socket_ret = 3, cl_connect_ret = - 1, cl_read_ret = Read_error\<rparr>"
      "\<lparr>argc = 2, cl_socket_ret = - 1, cl_connect_ret = 0, cl_read_ret = Read_error\<rparr>"
      "\<lparr>argc = 1, cl_socket_ret = 3, cl_connect_ret = 0, cl_read_ret = Read_error\<rparr>"]
  by (simp add: exit_status_def)

end
